theory Spec2Isabelle
  imports Main "HOL-Library.Word" "HOL-Library.Sublist"
begin

unbundle bit_operations_syntax

section \<open>Machine types and error numbers\<close>

text \<open>
  The property handlers of \<^verbatim>\<open>props.c\<close> return a C \<^verbatim>\<open>int\<close>: 0 for success, a negated
  \<^verbatim>\<open>errno\<close> or a small negative constant otherwise. Return values are modelled as
  \<^typ>\<open>int\<close>; the 64-bit kernel quantities (\<^verbatim>\<open>u64\<close>) and the 32-bit \<^verbatim>\<open>int devid\<close>
  are words, so that the conversions between them are the ones C performs.
\<close>

type_synonym u64 = "64 word"
type_synonym c_int = "32 word"

text \<open>The error numbers the handlers can meet, with their Linux values.\<close>

datatype errno =
  EPERM | ENOENT | EIO | EBADF | ENOMEM | EACCES | ENODEV | EINVAL | ENOTTY | ERANGE
  | ENODATA | EOPNOTSUPP

fun errno_num :: "errno \<Rightarrow> int" where
  "errno_num EPERM = 1"
| "errno_num ENOENT = 2"
| "errno_num EIO = 5"
| "errno_num EBADF = 9"
| "errno_num ENOMEM = 12"
| "errno_num EACCES = 13"
| "errno_num ENODEV = 19"
| "errno_num EINVAL = 22"
| "errno_num ENOTTY = 25"
| "errno_num ERANGE = 34"
| "errno_num ENODATA = 61"
| "errno_num EOPNOTSUPP = 95"

text \<open>\<^verbatim>\<open>#ifndef ENOATTR / #define ENOATTR ENODATA\<close> (props.c, lines 38-40).\<close>

definition ENOATTR :: errno where
  "ENOATTR = ENODATA"

definition nl :: string where
  "nl = [CHR 0x0A]"

section \<open>The system the handlers run against\<close>

text \<open>
  Modelled from the spec: \<^verbatim>\<open>enum prop_object_type\<close> is declared in \<^verbatim>\<open>props.h\<close>, which is
  not among the sources. The spec (section 3) gives the four tags; a \<^verbatim>\<open>types\<close> value is
  a set of tags, and \<^verbatim>\<open>|\<close> on tags joins them.
\<close>

datatype prop_object_type =
  prop_object_dev | prop_object_root | prop_object_subvol | prop_object_inode

datatype open_flag = O_RDONLY | O_RDWR

text \<open>
  Modelled from the spec: the selector bits of the device property exchange
  (\<^verbatim>\<open>BTRFS_DEV_PROPERTY_TYPE\<close>, \<^verbatim>\<open>BTRFS_DEV_PROPERTY_READ\<close>) come from a kernel header that
  is not among the sources. The spec (section 6) describes the field as a bitmask
  selecting sub-fields (type, read); it is modelled as a set of selectors.
\<close>

datatype selector = BTRFS_DEV_PROPERTY_TYPE | BTRFS_DEV_PROPERTY_READ

record btrfs_ioctl_dev_properties =
  props_devid :: u64
  props_properties :: "selector set"
  props_type :: u64

text \<open>
  Modelled from the spec: the declaration of \<^verbatim>\<open>struct btrfs_ioctl_dev_info_args\<close> is not
  among the sources. The spec (section 6): the per-device query returns a device id and
  its device path, or no path for a missing device. props.c holds the structure in a
  local variable that it zeroes (line 205) and hands over by address to be filled in
  place (line 206), and it needs a cast to \<^verbatim>\<open>char *\<close> to pass the path on (line 218): the
  path is an array of bytes inside the structure. It is modelled as the text before the
  first zero byte, so that a device without a path has the empty text, which is also
  what the zeroed structure holds.
\<close>

record btrfs_ioctl_dev_info_args =
  di_devid :: u64
  di_path :: string

text \<open>
  The test \<^verbatim>\<open>!dev_info.path\<close> (props.c, line 214). In an expression the array stands for
  the address of its first byte, which lies inside the local variable and is never
  null: the test is false whatever the structure holds.
\<close>

definition path_is_null :: "btrfs_ioctl_dev_info_args \<Rightarrow> bool" where
  "path_is_null dev_info = False"

text \<open>Every call that leaves the program is recorded, in order.\<close>

datatype call =
    Call_set_subvolume_read_only string bool
  | Call_get_subvolume_read_only string
  | Call_set_label string string
  | Call_get_label string
  | Call_open_file_or_dir3 string open_flag
  | Call_close_file_or_dir int
  | Call_fsetxattr int string string
  | Call_fgetxattr int string nat
  | Call_get_btrfs_mount string
  | Call_btrfs_open_dir string
  | Call_stat string
  | Call_ioctl_fs_info int
  | Call_get_device_info int u64
  | Call_ioctl_dev_properties int btrfs_ioctl_dev_properties

text \<open>A message of \<^verbatim>\<open>error()\<close>: the format, its arguments, and the errno that \<^verbatim>\<open>%m\<close> prints.\<close>

datatype msg = Msg string "string list" "errno option"

text \<open>
  The answers of the system that the handlers only read. \<open>fault_q\<close> is a script of
  injected failures: the \<open>n\<close>-th fallible call fails with \<open>e\<close> when \<open>fault_q n = Some e\<close>.
  The other fields are what the mount table, \<^verbatim>\<open>stat\<close> and the filesystem's device
  queries answer: \<open>mount_q\<close> the return value and mount point of \<^verbatim>\<open>get_btrfs_mount\<close>,
  \<open>stat_q\<close> the (major, minor) of \<^verbatim>\<open>st_rdev\<close> or \<open>None\<close> when \<^verbatim>\<open>stat\<close> fails (as it does
  on the empty path, for which the system reports \<^verbatim>\<open>ENOENT\<close>),
  \<open>fs_info_q\<close> the errno or the \<^verbatim>\<open>max_id\<close> of \<^verbatim>\<open>BTRFS_IOC_FS_INFO\<close> on a mount point,
  \<open>dev_info_q\<close> the return value and the filled structure of \<^verbatim>\<open>get_device_info\<close>.
\<close>

record env =
  fault_q :: "nat \<Rightarrow> errno option"
  mount_q :: "string \<Rightarrow> int \<times> string"
  stat_q :: "string \<Rightarrow> (nat \<times> nat) option"
  fs_info_q :: "string \<Rightarrow> errno + u64"
  dev_info_q :: "string \<Rightarrow> u64 \<Rightarrow> int \<times> btrfs_ioctl_dev_info_args"

text \<open>
  The state the handlers change: the count of fallible calls made, the open handles
  (descriptor and path), the live heap buffers, the calls made, the lines printed on
  standard output, the error messages, and the stores behind the properties: the
  extended attributes of each existing file or directory, the read-only flag of each
  subvolume, the label of each filesystem, and the type mask of each device of each
  mounted filesystem.
\<close>

record sys =
  clock :: nat
  handles :: "(int \<times> string) list"
  heap :: "nat list"
  trace :: "call list"
  out :: "string list"
  errs :: "msg list"
  xattrs :: "string \<Rightarrow> (string \<rightharpoonup> string) option"
  subvol_ro :: "string \<rightharpoonup> bool"
  labels :: "string \<rightharpoonup> string"
  dev_types :: "string \<times> u64 \<rightharpoonup> u64"

definition fault :: "env \<Rightarrow> sys \<Rightarrow> errno option" where
  "fault E s = fault_q E (clock s)"

definition tick :: "sys \<Rightarrow> sys" where
  "tick s = s\<lparr>clock := Suc (clock s)\<rparr>"

definition log_call :: "call \<Rightarrow> sys \<Rightarrow> sys" where
  "log_call c s = s\<lparr>trace := trace s @ [c]\<rparr>"

definition error_msg :: "string \<Rightarrow> string list \<Rightarrow> errno option \<Rightarrow> sys \<Rightarrow> sys" where
  "error_msg fmt args e s = s\<lparr>errs := errs s @ [Msg fmt args e]\<rparr>"

definition printf :: "string \<Rightarrow> sys \<Rightarrow> sys" where
  "printf line s = s\<lparr>out := out s @ [line]\<rparr>"

section \<open>The read-only flag\<close>

text \<open>
  The library calls of libbtrfsutil answer \<open>None\<close> for \<^verbatim>\<open>BTRFS_UTIL_OK\<close> and \<open>Some e\<close>
  for an error that left \<open>e\<close> in \<^verbatim>\<open>errno\<close>. A path that is not a subvolume is \<open>EINVAL\<close>.
\<close>

definition btrfs_util_set_subvolume_read_only ::
  "env \<Rightarrow> string \<Rightarrow> bool \<Rightarrow> sys \<Rightarrow> errno option \<times> sys" where
  "btrfs_util_set_subvolume_read_only E object read_only s =
     (let s1 = tick (log_call (Call_set_subvolume_read_only object read_only) s) in
      case fault E s of
        Some e \<Rightarrow> (Some e, s1)
      | None \<Rightarrow>
          (case subvol_ro s object of
             None \<Rightarrow> (Some EINVAL, s1)
           | Some _ \<Rightarrow> (None, s1\<lparr>subvol_ro := (subvol_ro s1)(object \<mapsto> read_only)\<rparr>)))"

definition btrfs_util_get_subvolume_read_only ::
  "env \<Rightarrow> string \<Rightarrow> sys \<Rightarrow> (errno + bool) \<times> sys" where
  "btrfs_util_get_subvolume_read_only E object s =
     (let s1 = tick (log_call (Call_get_subvolume_read_only object) s) in
      case fault E s of
        Some e \<Rightarrow> (Inl e, s1)
      | None \<Rightarrow>
          (case subvol_ro s object of
             None \<Rightarrow> (Inl EINVAL, s1)
           | Some b \<Rightarrow> (Inr b, s1)))"

definition error_btrfs_util :: "errno \<Rightarrow> sys \<Rightarrow> sys" where
  "error_btrfs_util e s = error_msg ''%s: %m'' [''btrfs_util_strerror''] (Some e) s"

text \<open>
  props.c, lines 42-76. An absent \<open>val\<close> is the C \<^verbatim>\<open>value == NULL\<close>: a get. The code
  reads \<^verbatim>\<open>errno\<close> after \<^verbatim>\<open>error_btrfs_util\<close> has printed; the model takes it to be the
  value the library call left, which is never 0.
\<close>

definition prop_read_only ::
  "env \<Rightarrow> prop_object_type \<Rightarrow> string \<Rightarrow> string \<Rightarrow> string option \<Rightarrow> sys \<Rightarrow> int \<times> sys" where
  "prop_read_only E type object name val s =
     (case val of
        Some v \<Rightarrow>
          (case (if v = ''true'' then Some True
                 else if v = ''false'' then Some False
                 else None) of
             None \<Rightarrow>
               (- errno_num EINVAL, error_msg ''invalid value for property: %s'' [v] None s)
           | Some read_only \<Rightarrow>
               (case btrfs_util_set_subvolume_read_only E object read_only s of
                  (Some e, s1) \<Rightarrow> (- errno_num e, error_btrfs_util e s1)
                | (None, s1) \<Rightarrow> (0, s1)))
      | None \<Rightarrow>
          (case btrfs_util_get_subvolume_read_only E object s of
             (Inl e, s1) \<Rightarrow> (- errno_num e, error_btrfs_util e s1)
           | (Inr read_only, s1) \<Rightarrow>
               (0, printf (''ro='' @ (if read_only then ''true'' else ''false'') @ nl) s1)))"

section \<open>Handles and buffers\<close>

text \<open>
  A newly opened descriptor is a number above every open one (and not negative); a new
  buffer is an address above every live one (and not 0, the null pointer).
\<close>

fun fresh_from :: "int \<Rightarrow> (int \<times> string) list \<Rightarrow> int" where
  "fresh_from m [] = m"
| "fresh_from m (h # hs) = fresh_from (max m (fst h + 1)) hs"

definition fresh_fd :: "(int \<times> string) list \<Rightarrow> int" where
  "fresh_fd hs = fresh_from 0 hs"

definition fresh_buf :: "nat list \<Rightarrow> nat" where
  "fresh_buf bs = Suc (Max (insert 0 (set bs)))"

definition close_file_or_dir :: "int \<Rightarrow> sys \<Rightarrow> sys" where
  "close_file_or_dir fd s =
     (log_call (Call_close_file_or_dir fd) s)\<lparr>handles := filter (\<lambda>h. fst h \<noteq> fd) (handles s)\<rparr>"

text \<open>
  \<^verbatim>\<open>open_file_or_dir3\<close> returns a descriptor, or -1 with \<^verbatim>\<open>errno\<close> set: here \<open>Inl e\<close>.
  A path that does not exist is \<open>ENOENT\<close>.
\<close>

definition open_file_or_dir3 :: "env \<Rightarrow> string \<Rightarrow> open_flag \<Rightarrow> sys \<Rightarrow> (errno + int) \<times> sys" where
  "open_file_or_dir3 E object flags s =
     (let s1 = tick (log_call (Call_open_file_or_dir3 object flags) s) in
      case fault E s of
        Some e \<Rightarrow> (Inl e, s1)
      | None \<Rightarrow>
          (case xattrs s object of
             None \<Rightarrow> (Inl ENOENT, s1)
           | Some _ \<Rightarrow>
               (Inr (fresh_fd (handles s)),
                s1\<lparr>handles := (fresh_fd (handles s), object) # handles s1\<rparr>)))"

text \<open>\<^verbatim>\<open>malloc\<close> returns a new buffer, or the null pointer (\<open>None\<close>).\<close>

definition malloc :: "env \<Rightarrow> nat \<Rightarrow> sys \<Rightarrow> nat option \<times> sys" where
  "malloc E sz s =
     (let s1 = tick s in
      case fault E s of
        Some _ \<Rightarrow> (None, s1)
      | None \<Rightarrow> (Some (fresh_buf (heap s)), s1\<lparr>heap := fresh_buf (heap s) # heap s1\<rparr>))"

definition free :: "nat option \<Rightarrow> sys \<Rightarrow> sys" where
  "free p s = (case p of None \<Rightarrow> s | Some b \<Rightarrow> s\<lparr>heap := filter (\<lambda>x. x \<noteq> b) (heap s)\<rparr>)"

section \<open>The compression property\<close>

text \<open>
  Modelled from the spec: the filesystem's side of \<^verbatim>\<open>fsetxattr\<close> and \<^verbatim>\<open>fgetxattr\<close> on a
  \<^verbatim>\<open>btrfs.\<close> attribute is kernel code and not among the sources. The spec (section 4.4)
  says that writing the empty string clears the property to unset, and (section 6)
  that an unset property has no attribute to read. So a write of the empty value
  removes the attribute, any other write stores the value, and a read of an attribute
  that is not stored fails with \<^verbatim>\<open>ENODATA\<close>. A read with size 0 answers the stored length
  and copies nothing; a read into a buffer that is too small is \<^verbatim>\<open>ERANGE\<close>.
\<close>

definition fsetxattr :: "env \<Rightarrow> int \<Rightarrow> string \<Rightarrow> string \<Rightarrow> sys \<Rightarrow> errno option \<times> sys" where
  "fsetxattr E fd xname v s =
     (let s1 = tick (log_call (Call_fsetxattr fd xname v) s) in
      case fault E s of
        Some e \<Rightarrow> (Some e, s1)
      | None \<Rightarrow>
          (case map_of (handles s) fd of
             None \<Rightarrow> (Some EBADF, s1)
           | Some p \<Rightarrow>
               (case xattrs s p of
                  None \<Rightarrow> (Some ENOENT, s1)
                | Some xs \<Rightarrow>
                    (None, s1\<lparr>xattrs := (xattrs s1)
                       (p := Some (if v = [] then xs(xname := None) else xs(xname \<mapsto> v)))\<rparr>))))"

definition fgetxattr ::
  "env \<Rightarrow> int \<Rightarrow> string \<Rightarrow> nat \<Rightarrow> sys \<Rightarrow> (errno + nat \<times> string) \<times> sys" where
  "fgetxattr E fd xname sz s =
     (let s1 = tick (log_call (Call_fgetxattr fd xname sz) s) in
      case fault E s of
        Some e \<Rightarrow> (Inl e, s1)
      | None \<Rightarrow>
          (case map_of (handles s) fd of
             None \<Rightarrow> (Inl EBADF, s1)
           | Some p \<Rightarrow>
               (case xattrs s p of
                  None \<Rightarrow> (Inl ENOENT, s1)
                | Some xs \<Rightarrow>
                    (case xs xname of
                       None \<Rightarrow> (Inl ENODATA, s1)
                     | Some v \<Rightarrow>
                         if sz = 0 then (Inr (length v, []), s1)
                         else if sz < length v then (Inl ERANGE, s1)
                         else (Inr (length v, v), s1)))))"

definition XATTR_BTRFS_PREFIX :: string where
  "XATTR_BTRFS_PREFIX = ''btrfs.''"

text \<open>The label \<^verbatim>\<open>out:\<close> of \<^verbatim>\<open>prop_compression\<close> (props.c, lines 161-167).\<close>

definition compression_out :: "nat option \<Rightarrow> nat option \<Rightarrow> int \<Rightarrow> int \<Rightarrow> sys \<Rightarrow> int \<times> sys" where
  "compression_out xattr_name buf fd ret s =
     (let s1 = free buf (free xattr_name s) in
      (ret, if fd \<ge> 0 then close_file_or_dir fd s1 else s1))"

text \<open>
  props.c, lines 98-168. \<^verbatim>\<open>%.*s\<close> prints at most \<open>len\<close> bytes of the buffer and stops
  at a NUL byte.
\<close>

definition prop_compression ::
  "env \<Rightarrow> prop_object_type \<Rightarrow> string \<Rightarrow> string \<Rightarrow> string option \<Rightarrow> sys \<Rightarrow> int \<times> sys" where
  "prop_compression E type object name val s =
     (let open_flags = (if val \<noteq> None then O_RDWR else O_RDONLY) in
      case open_file_or_dir3 E object open_flags s of
        (Inl e, s1) \<Rightarrow>
          compression_out None None (- 1) (- errno_num e)
            (error_msg ''failed to open %s: %m'' [object] (Some e) s1)
      | (Inr fd, s1) \<Rightarrow>
          (case malloc E (length XATTR_BTRFS_PREFIX + length name + 1) s1 of
             (None, s2) \<Rightarrow> compression_out None None fd (- errno_num ENOMEM) s2
           | (Some xattr_name, s2) \<Rightarrow>
               (let xname = XATTR_BTRFS_PREFIX @ name;
                    (sret, s3) =
                      (case val of
                         Some v0 \<Rightarrow>
                           (let v = (if v0 = ''no'' \<or> v0 = ''none'' then [] else v0) in
                            case fsetxattr E fd xname v s2 of
                              (Some e, s') \<Rightarrow> (Inl e, s')
                            | (None, s') \<Rightarrow> (Inr 0, s'))
                       | None \<Rightarrow>
                           (case fgetxattr E fd xname 0 s2 of
                              (Inl e, s') \<Rightarrow> (Inl e, s')
                            | (Inr (n, _), s') \<Rightarrow> (Inr n, s')))
                in
                case sret of
                  Inl e \<Rightarrow>
                    if - errno_num e \<noteq> - errno_num ENOATTR then
                      compression_out (Some xattr_name) None fd (- errno_num e)
                        (error_msg ''failed to %s compression for %s: %m''
                           [if val \<noteq> None then ''set'' else ''get'', object] (Some e) s3)
                    else compression_out (Some xattr_name) None fd 0 s3
                | Inr len \<Rightarrow>
                    if val = None then
                      (case malloc E len s3 of
                         (None, s4) \<Rightarrow>
                           compression_out (Some xattr_name) None fd (- errno_num ENOMEM) s4
                       | (Some buf, s4) \<Rightarrow>
                           (case fgetxattr E fd xname len s4 of
                              (Inl e, s5) \<Rightarrow>
                                compression_out (Some xattr_name) (Some buf) fd (- errno_num e)
                                  (error_msg ''failed to get compression for %s: %m''
                                     [object] (Some e) s5)
                            | (Inr (_, data), s5) \<Rightarrow>
                                compression_out (Some xattr_name) (Some buf) fd 0
                                  (printf (''compression=''
                                       @ takeWhile (\<lambda>c. c \<noteq> CHR 0x00) (take len data) @ nl) s5)))
                    else compression_out (Some xattr_name) None fd 0 s3)))"

section \<open>The device resolver\<close>

text \<open>
  The helpers of the resolver. \<^verbatim>\<open>get_btrfs_mount\<close> answers its return value and the mount
  point; \<^verbatim>\<open>btrfs_open_dir\<close> returns a new descriptor or a negative value; \<^verbatim>\<open>stat\<close> gives
  the device numbers of a path; the two queries on a descriptor are answered by the
  filesystem mounted at the path the descriptor was opened on.
\<close>

definition get_btrfs_mount :: "env \<Rightarrow> string \<Rightarrow> sys \<Rightarrow> (int \<times> string) \<times> sys" where
  "get_btrfs_mount E dev s = (mount_q E dev, log_call (Call_get_btrfs_mount dev) s)"

definition btrfs_open_dir :: "env \<Rightarrow> string \<Rightarrow> sys \<Rightarrow> int \<times> sys" where
  "btrfs_open_dir E path s =
     (let s1 = tick (log_call (Call_btrfs_open_dir path) s) in
      case fault E s of
        Some e \<Rightarrow> (- errno_num e, s1)
      | None \<Rightarrow>
          (fresh_fd (handles s), s1\<lparr>handles := (fresh_fd (handles s), path) # handles s1\<rparr>))"

definition stat :: "env \<Rightarrow> string \<Rightarrow> sys \<Rightarrow> (nat \<times> nat) option \<times> sys" where
  "stat E path s = (stat_q E path, log_call (Call_stat path) s)"

definition ioctl_fs_info :: "env \<Rightarrow> int \<Rightarrow> sys \<Rightarrow> (errno + u64) \<times> sys" where
  "ioctl_fs_info E fd s =
     (case map_of (handles s) fd of
        None \<Rightarrow> Inl EBADF
      | Some mnt \<Rightarrow> fs_info_q E mnt,
      log_call (Call_ioctl_fs_info fd) s)"

definition get_device_info ::
  "env \<Rightarrow> int \<Rightarrow> u64 \<Rightarrow> sys \<Rightarrow> (int \<times> btrfs_ioctl_dev_info_args) \<times> sys" where
  "get_device_info E fd devid s =
     (case map_of (handles s) fd of
        None \<Rightarrow> (- errno_num EBADF, \<lparr>di_devid = 0, di_path = []\<rparr>)
      | Some mnt \<Rightarrow> dev_info_q E mnt devid,
      log_call (Call_get_device_info fd devid) s)"

definition INT_MAX :: nat where
  "INT_MAX = 2147483647"

text \<open>Decimal output of \<^verbatim>\<open>%llu\<close> and \<^verbatim>\<open>%d\<close>; \<open>quoted\<close> puts a text between single quotes.\<close>

fun dec_nat :: "nat \<Rightarrow> string" where
  "dec_nat n =
     (if n < 10 then [''0123456789'' ! n]
      else dec_nat (n div 10) @ [''0123456789'' ! (n mod 10)])"

definition dec_int :: "int \<Rightarrow> string" where
  "dec_int i = (if i < 0 then CHR ''-'' # dec_nat (nat (- i)) else dec_nat (nat i))"

definition quoted :: "string \<Rightarrow> string" where
  "quoted str = [CHR 0x27] @ str @ [CHR 0x27]"

text \<open>
  The body of the loop of \<^verbatim>\<open>btrfs_find_devid_and_mnt\<close> (props.c, lines 203-229) for the
  candidate \<open>i\<close>. The first component is \<open>None\<close> when the loop goes on (\<^verbatim>\<open>continue\<close>, or
  the end of the body) and \<open>Some (ret, devid)\<close> at a \<^verbatim>\<open>goto out\<close>, where \<open>devid\<close> is what
  was stored through the \<^verbatim>\<open>devid\<close> pointer, if anything. \<^verbatim>\<open>*devid = dev_info.devid\<close>
  converts a \<^verbatim>\<open>u64\<close> to \<^verbatim>\<open>int\<close>. A failing \<^verbatim>\<open>stat\<close> returns -1. The \<^verbatim>\<open>continue\<close> meant for
  missing devices is behind the test \<open>path_is_null\<close>, so the entry of a device without
  a path goes on to \<^verbatim>\<open>stat\<close> with the empty text.
\<close>

definition scan_body ::
  "env \<Rightarrow> string \<Rightarrow> int \<Rightarrow> nat \<times> nat \<Rightarrow> nat \<Rightarrow> sys \<Rightarrow> (int \<times> c_int option) option \<times> sys" where
  "scan_body E devpath fd stdevpath i s =
     (case get_device_info E fd (of_nat i) s of
        ((ret, dev_info), s1) \<Rightarrow>
          if ret = - errno_num ENODEV then (None, s1)
          else if ret \<noteq> 0 then
            (Some (ret, None),
             error_msg ''cannot get info about device devid=%d'' [dec_int (int i)] None s1)
          else if path_is_null dev_info then (None, s1)
          else
            (case stat E (di_path dev_info) s1 of
               (None, s2) \<Rightarrow>
                 (Some (- 1, None), error_msg (''cannot stat '' @ quoted ''%s'') [devpath] None s2)
             | (Some st, s2) \<Rightarrow>
                 if fst st = fst stdevpath \<and> snd st = snd stdevpath
                 then (Some (0, Some (ucast (di_devid dev_info))), s2)
                 else (None, s2)))"

text \<open>
  The loop \<^verbatim>\<open>for (i = 0; i <= fi_args.max_id; i++)\<close>. The counter is a C \<^verbatim>\<open>int\<close> that
  starts at 0, so it is a natural number up to \<open>INT_MAX\<close> and its conversion to \<^verbatim>\<open>u64\<close>
  for the comparison keeps its value. Incrementing it at \<open>INT_MAX\<close> is a signed
  overflow, which C leaves undefined: the result \<open>None\<close>.
\<close>

function scan_loop ::
  "env \<Rightarrow> string \<Rightarrow> int \<Rightarrow> nat \<times> nat \<Rightarrow> u64 \<Rightarrow> nat \<Rightarrow> sys
     \<Rightarrow> ((int \<times> c_int option) \<times> sys) option" where
  "scan_loop E devpath fd stdevpath max_id i s =
     (if i \<le> unat max_id then
        (case scan_body E devpath fd stdevpath i s of
           (Some r, s1) \<Rightarrow> Some (r, s1)
         | (None, s1) \<Rightarrow>
             if i < INT_MAX then scan_loop E devpath fd stdevpath max_id (Suc i) s1
             else None)
      else Some ((- 12, None), s))"
  by pat_completeness auto
termination
  by (relation "measure (\<lambda>(E, devpath, fd, stdevpath, max_id, i, s). INT_MAX - i)") auto

declare scan_loop.simps [simp del]

text \<open>
  props.c, lines 170-237. The result is the return value, the \<^verbatim>\<open>devid\<close> stored through
  the pointer (if any) and the mount point written to \<^verbatim>\<open>path\<close>; \<open>None\<close> is undefined
  behaviour of the loop counter. The \<^verbatim>\<open>EPERM\<close> branch returns directly, the other
  failures leave through the label \<^verbatim>\<open>out:\<close>, which closes the directory.
\<close>

definition btrfs_find_devid_and_mnt ::
  "env \<Rightarrow> string \<Rightarrow> sys \<Rightarrow> ((int \<times> c_int option \<times> string) \<times> sys) option" where
  "btrfs_find_devid_and_mnt E devpath s =
     (case get_btrfs_mount E devpath s of
        ((ret, path), s1) \<Rightarrow>
          if ret \<noteq> 0 then Some ((ret, None, path), s1)
          else
            (case btrfs_open_dir E path s1 of
               (fd, s2) \<Rightarrow>
                 if fd < 0 then Some ((fd, None, path), s2)
                 else
                   (case stat E devpath s2 of
                      (None, s3) \<Rightarrow>
                        Some ((- 1, None, path),
                              close_file_or_dir fd
                                (error_msg (''cannot stat '' @ quoted ''%s'') [devpath] None s3))
                    | (Some stdevpath, s3) \<Rightarrow>
                        (case ioctl_fs_info E fd s3 of
                           (Inl e, s4) \<Rightarrow>
                             if e = EPERM then Some ((- errno_num e, None, path), s4)
                             else
                               Some ((- 10, None, path),
                                     close_file_or_dir fd
                                       (error_msg ''cannot get filesystem info: %m'' [] (Some e) s4))
                         | (Inr max_id, s4) \<Rightarrow>
                             (case scan_loop E devpath fd stdevpath max_id 0 s4 of
                                None \<Rightarrow> None
                              | Some ((ret, devid), s5) \<Rightarrow>
                                  Some ((ret, devid, path), close_file_or_dir fd s5))))))"

section \<open>The allocation hint\<close>

text \<open>
  Modelled from the spec: the macros \<^verbatim>\<open>BTRFS_DEV_ALLOCATION_MASK\<close> and
  \<^verbatim>\<open>BTRFS_DEV_ALLOCATION_*\<close> come from a kernel header that is not among the sources. The
  spec (section 3) only says that four named classes are packed into a fixed sub-range
  of the device's type mask. Their values are parameters of the model.
\<close>

record alloc_consts =
  BTRFS_DEV_ALLOCATION_MASK :: u64
  BTRFS_DEV_ALLOCATION_PREFERRED_METADATA :: u64
  BTRFS_DEV_ALLOCATION_METADATA_ONLY :: u64
  BTRFS_DEV_ALLOCATION_PREFERRED_DATA :: u64
  BTRFS_DEV_ALLOCATION_DATA_ONLY :: u64

record ull_charp_pair_t =
  pair_value :: u64
  pair_descr :: "string option"

text \<open>props.c, lines 239-248; the last entry is the terminator \<^verbatim>\<open>{0, NULL}\<close>.\<close>

definition allocation_hint_description :: "alloc_consts \<Rightarrow> ull_charp_pair_t list" where
  "allocation_hint_description K =
     [\<lparr>pair_value = BTRFS_DEV_ALLOCATION_PREFERRED_METADATA K,
       pair_descr = Some ''PREFERRED_METADATA''\<rparr>,
      \<lparr>pair_value = BTRFS_DEV_ALLOCATION_METADATA_ONLY K, pair_descr = Some ''METADATA_ONLY''\<rparr>,
      \<lparr>pair_value = BTRFS_DEV_ALLOCATION_PREFERRED_DATA K, pair_descr = Some ''PREFERRED_DATA''\<rparr>,
      \<lparr>pair_value = BTRFS_DEV_ALLOCATION_DATA_ONLY K, pair_descr = Some ''DATA_ONLY''\<rparr>,
      \<lparr>pair_value = 0, pair_descr = None\<rparr>]"

text \<open>
  The two search loops \<^verbatim>\<open>for (i = 0; table[i].descr; i++) if (...) break;\<close>: the entry
  at which the loop stops, which is the first match or the terminator.
\<close>

fun find_value :: "u64 \<Rightarrow> ull_charp_pair_t list \<Rightarrow> ull_charp_pair_t" where
  "find_value v [] = \<lparr>pair_value = 0, pair_descr = None\<rparr>"
| "find_value v (e # es) =
     (if pair_descr e = None then e
      else if v = pair_value e then e
      else find_value v es)"

fun find_descr :: "string \<Rightarrow> ull_charp_pair_t list \<Rightarrow> ull_charp_pair_t" where
  "find_descr str [] = \<lparr>pair_value = 0, pair_descr = None\<rparr>"
| "find_descr str (e # es) =
     (if pair_descr e = None then e
      else if pair_descr e = Some str then e
      else find_descr str es)"

text \<open>
  \<^verbatim>\<open>sscanf(value, "%llu", &v)\<close>: white space is skipped, a sign may follow, then the
  longest run of decimal digits is converted; what comes after the digits is not
  looked at. Without a digit nothing is converted (the call does not return 1):
  \<open>None\<close>. A number with a minus sign is negated in 64 bits and a number that does not
  fit is \<^verbatim>\<open>ULLONG_MAX\<close>, as \<^verbatim>\<open>strtoull\<close> does.
\<close>

definition isspace :: "char \<Rightarrow> bool" where
  "isspace c = (c \<in> set [CHR '' '', CHR 0x09, CHR 0x0A, CHR 0x0B, CHR 0x0C, CHR 0x0D])"

definition isdigit :: "char \<Rightarrow> bool" where
  "isdigit c = (c \<in> set ''0123456789'')"

text \<open>The value of a digit is its position among the ten digits.\<close>

definition digit_val :: "char \<Rightarrow> nat" where
  "digit_val c = length (takeWhile (\<lambda>d. d \<noteq> c) ''0123456789'')"

definition dec_value :: "string \<Rightarrow> nat" where
  "dec_value ds = foldl (\<lambda>acc c. 10 * acc + digit_val c) 0 ds"

definition sscanf_llu :: "string \<Rightarrow> u64 option" where
  "sscanf_llu str =
     (let s1 = dropWhile isspace str;
          neg = (s1 \<noteq> [] \<and> hd s1 = CHR ''-'');
          s2 = (if s1 \<noteq> [] \<and> (hd s1 = CHR ''-'' \<or> hd s1 = CHR ''+'') then tl s1 else s1);
          ds = takeWhile isdigit s2
      in if ds = [] then None
         else if dec_value ds \<ge> 2 ^ 64 then Some (- 1)
         else if neg then Some (- of_nat (dec_value ds))
         else Some (of_nat (dec_value ds)))"

text \<open>
  Modelled from the spec: the kernel's side of \<^verbatim>\<open>BTRFS_IOC_DEV_PROPERTIES\<close> is not among
  the sources. The spec (section 6): the request carries the device id, the selectors
  of the sub-fields requested or written, and the type mask; with the read selector
  the selected fields are copied out of the device's stored properties, without it
  the selected fields are written to them. A device the filesystem does not have
  fails the call. \<^verbatim>\<open>ioctl\<close> returns -1 on failure.
\<close>

definition ioctl_dev_properties ::
  "env \<Rightarrow> int \<Rightarrow> btrfs_ioctl_dev_properties \<Rightarrow> sys \<Rightarrow> (int \<times> btrfs_ioctl_dev_properties) \<times> sys" where
  "ioctl_dev_properties E fd props s =
     (let s1 = tick (log_call (Call_ioctl_dev_properties fd props) s) in
      case fault E s of
        Some e \<Rightarrow> ((- 1, props), s1)
      | None \<Rightarrow>
          (case map_of (handles s) fd of
             None \<Rightarrow> ((- 1, props), s1)
           | Some mnt \<Rightarrow>
               (case dev_types s (mnt, props_devid props) of
                  None \<Rightarrow> ((- 1, props), s1)
                | Some t \<Rightarrow>
                    if BTRFS_DEV_PROPERTY_READ \<in> props_properties props then
                      ((0, if BTRFS_DEV_PROPERTY_TYPE \<in> props_properties props
                           then props\<lparr>props_type := t\<rparr> else props), s1)
                    else
                      ((0, props),
                       if BTRFS_DEV_PROPERTY_TYPE \<in> props_properties props
                       then s1\<lparr>dev_types := (dev_types s1)((mnt, props_devid props) \<mapsto> props_type props)\<rparr>
                       else s1))))"

text \<open>The line printed by a get (props.c, lines 288-294), given the text after \<^verbatim>\<open>allocation_hint=\<close>.\<close>

definition hint_line :: "c_int \<Rightarrow> string \<Rightarrow> string \<Rightarrow> string" where
  "hint_line devid object txt =
     ''devid='' @ dec_int (sint devid) @ '', path='' @ object @ '': allocation_hint='' @ txt @ nl"

definition ioctl_failed_msg :: string where
  "ioctl_failed_msg = ''Cannot perform BTRFS_IOC_DEV_PROPERTIES ioctl on '' @ quoted ''%s''"

definition invalid_value_msg :: string where
  "invalid_value_msg = ''Invalid value '' @ quoted ''%s'' @ nl"

text \<open>
  The get branch (props.c, lines 282-297): the sub-mask of the type read from the
  device is looked up in the table; the name found is printed, or the number.
\<close>

definition allocation_hint_get ::
  "alloc_consts \<Rightarrow> c_int \<Rightarrow> string \<Rightarrow> btrfs_ioctl_dev_properties \<Rightarrow> int \<Rightarrow> sys \<Rightarrow> int \<times> sys" where
  "allocation_hint_get K devid object props fd s =
     (let v = props_type props AND BTRFS_DEV_ALLOCATION_MASK K;
          e = find_value v (allocation_hint_description K)
      in case pair_descr e of
           Some descr \<Rightarrow> (0, close_file_or_dir fd (printf (hint_line devid object descr) s))
         | None \<Rightarrow>
             (0, close_file_or_dir fd
                   (printf (hint_line devid object (''unknown:'' @ dec_nat (unat v))) s)))"

text \<open>
  The value of a set (props.c, lines 299-313): the value of the class named, or else
  the number \<^verbatim>\<open>sscanf\<close> converts if it has no bit outside the allocation mask; \<open>None\<close>
  in the two cases that print \<^verbatim>\<open>Invalid value\<close>.
\<close>

definition parse_hint :: "alloc_consts \<Rightarrow> string \<Rightarrow> u64 option" where
  "parse_hint K str =
     (let e = find_descr str (allocation_hint_description K) in
      if pair_descr e \<noteq> None then Some (pair_value e)
      else
        (case sscanf_llu str of
           None \<Rightarrow> None
         | Some v \<Rightarrow> if v AND NOT (BTRFS_DEV_ALLOCATION_MASK K) \<noteq> 0 then None else Some v))"

text \<open>The set branch (props.c, lines 299-331).\<close>

definition allocation_hint_set ::
  "alloc_consts \<Rightarrow> env \<Rightarrow> c_int \<Rightarrow> string \<Rightarrow> string \<Rightarrow> btrfs_ioctl_dev_properties \<Rightarrow> int \<Rightarrow> sys
     \<Rightarrow> int \<times> sys" where
  "allocation_hint_set K E devid path str props fd s =
     (case parse_hint K str of
        None \<Rightarrow> (- 3, close_file_or_dir fd (error_msg invalid_value_msg [str] None s))
      | Some v \<Rightarrow>
          (case ioctl_dev_properties E fd
                  (props\<lparr>props_type :=
                      (props_type props AND NOT (BTRFS_DEV_ALLOCATION_MASK K))
                        OR (v AND BTRFS_DEV_ALLOCATION_MASK K),
                    props_properties := {BTRFS_DEV_PROPERTY_TYPE},
                    props_devid := scast devid\<rparr>) s of
             ((ret, _), s1) \<Rightarrow>
               if ret < 0 then
                 (- 4, close_file_or_dir fd (error_msg ioctl_failed_msg [path] None s1))
               else (0, close_file_or_dir fd s1)))"

text \<open>
  The request of the first exchange (props.c, lines 271-273): the structure is zeroed,
  then the device id and the selectors are set. \<^verbatim>\<open>props.devid = devid\<close> converts the
  \<^verbatim>\<open>int\<close> to \<^verbatim>\<open>u64\<close> with its sign.
\<close>

definition read_request :: "c_int \<Rightarrow> btrfs_ioctl_dev_properties" where
  "read_request devid =
     \<lparr>props_devid = scast devid,
      props_properties = {BTRFS_DEV_PROPERTY_TYPE, BTRFS_DEV_PROPERTY_READ},
      props_type = 0\<rparr>"

text \<open>
  props.c, lines 251-332. \<open>None\<close> is undefined behaviour: that of the resolver's loop
  counter, or a read of \<^verbatim>\<open>devid\<close> when the resolver returned 0 without storing it.
\<close>

definition prop_allocation_hint ::
  "alloc_consts \<Rightarrow> env \<Rightarrow> prop_object_type \<Rightarrow> string \<Rightarrow> string \<Rightarrow> string option \<Rightarrow> sys
     \<Rightarrow> (int \<times> sys) option" where
  "prop_allocation_hint K E type object name val s =
     (case btrfs_find_devid_and_mnt E object s of
        None \<Rightarrow> None
      | Some ((ret, devid_written, path), s1) \<Rightarrow>
          if ret \<noteq> 0 then Some (- 5, s1)
          else
            (case devid_written of
               None \<Rightarrow> None
             | Some devid \<Rightarrow>
                 (case btrfs_open_dir E path s1 of
                    (fd, s2) \<Rightarrow>
                      if fd < 0 then Some (fd, s2)
                      else
                        (case ioctl_dev_properties E fd (read_request devid) s2 of
                           ((ret, props), s3) \<Rightarrow>
                             if ret < 0 then
                               Some (- 1, close_file_or_dir fd
                                            (error_msg ioctl_failed_msg [path] None s3))
                             else
                               (case val of
                                  None \<Rightarrow> Some (allocation_hint_get K devid object props fd s3)
                                | Some str \<Rightarrow>
                                    Some (allocation_hint_set K E devid path str props fd s3))))))"

section \<open>The label\<close>

text \<open>
  \<^verbatim>\<open>set_label\<close> and \<^verbatim>\<open>get_label\<close> are helpers outside the sources: they return 0 or a
  negated errno; the checks they make themselves are among the failures they report.
\<close>

definition set_label :: "env \<Rightarrow> string \<Rightarrow> string \<Rightarrow> sys \<Rightarrow> int \<times> sys" where
  "set_label E object v s =
     (let s1 = tick (log_call (Call_set_label object v) s) in
      case fault E s of
        Some e \<Rightarrow> (- errno_num e, s1)
      | None \<Rightarrow>
          (case labels s object of
             None \<Rightarrow> (- errno_num ENOENT, s1)
           | Some _ \<Rightarrow> (0, s1\<lparr>labels := (labels s1)(object \<mapsto> v)\<rparr>)))"

definition get_label :: "env \<Rightarrow> string \<Rightarrow> sys \<Rightarrow> (int \<times> string) \<times> sys" where
  "get_label E object s =
     (let s1 = tick (log_call (Call_get_label object) s) in
      case fault E s of
        Some e \<Rightarrow> ((- errno_num e, []), s1)
      | None \<Rightarrow>
          (case labels s object of
             None \<Rightarrow> ((- errno_num ENOENT, []), s1)
           | Some l \<Rightarrow> ((0, l), s1)))"

text \<open>props.c, lines 78-96.\<close>

definition prop_label ::
  "env \<Rightarrow> prop_object_type \<Rightarrow> string \<Rightarrow> string \<Rightarrow> string option \<Rightarrow> sys \<Rightarrow> int \<times> sys" where
  "prop_label E type object name val s =
     (case val of
        Some v \<Rightarrow> set_label E object v s
      | None \<Rightarrow>
          (case get_label E object s of
             ((ret, label), s1) \<Rightarrow>
               if ret = 0 then (ret, printf (''label='' @ label @ nl) s1) else (ret, s1)))"

section \<open>The table of properties\<close>

text \<open>
  A handler of the table is a pointer to one of the four functions; calling through
  the pointer runs the function.
\<close>

datatype prop_handler_t =
  Fn_prop_read_only | Fn_prop_label | Fn_prop_compression | Fn_prop_allocation_hint

fun call_handler ::
  "prop_handler_t \<Rightarrow> alloc_consts \<Rightarrow> env \<Rightarrow> prop_object_type \<Rightarrow> string \<Rightarrow> string \<Rightarrow> string option
     \<Rightarrow> sys \<Rightarrow> (int \<times> sys) option" where
  "call_handler Fn_prop_read_only K E ty object name val s =
     Some (prop_read_only E ty object name val s)"
| "call_handler Fn_prop_label K E ty object name val s =
     Some (prop_label E ty object name val s)"
| "call_handler Fn_prop_compression K E ty object name val s =
     Some (prop_compression E ty object name val s)"
| "call_handler Fn_prop_allocation_hint K E ty object name val s =
     prop_allocation_hint K E ty object name val s"

text \<open>
  Modelled from the spec: \<^verbatim>\<open>struct prop_handler\<close> is declared in \<^verbatim>\<open>props.h\<close>, which is not
  among the sources. Its members, in the order of the spec's PropertyDescriptor
  (section 3), which is also the order the terminator \<^verbatim>\<open>{NULL, NULL, 0, 0, NULL}\<close> of the
  table fits: name, description, read-only flag, applicable types, handler.
\<close>

datatype prop_handler_field = F_name | F_desc | F_read_only | F_types | F_handler

definition prop_handler_fields :: "prop_handler_field list" where
  "prop_handler_fields = [F_name, F_desc, F_read_only, F_types, F_handler]"

text \<open>
  The values written in the table, and C's rule for an initializer list: a designated
  initializer \<^verbatim>\<open>.f = v\<close> sets the member \<open>f\<close>, an initializer without a designator sets
  the member declared after the one set last (the first member at the start of the
  list), and a member the list does not set is zero.
\<close>

datatype cval =
  C_null | C_str string | C_int int | C_types "prop_object_type set" | C_fn prop_handler_t

datatype initializer = Designated prop_handler_field cval | Positional cval

fun initialize ::
  "prop_handler_field list \<Rightarrow> initializer list \<Rightarrow> (prop_handler_field \<rightharpoonup> cval)
     \<Rightarrow> (prop_handler_field \<rightharpoonup> cval)" where
  "initialize cur [] m = m"
| "initialize cur (Designated f v # rest) m =
     initialize (tl (dropWhile (\<lambda>g. g \<noteq> f) prop_handler_fields)) rest (m(f \<mapsto> v))"
| "initialize [] (Positional v # rest) m = initialize [] rest m"
| "initialize (f # cur) (Positional v # rest) m = initialize cur rest (m(f \<mapsto> v))"

record prop_handler =
  ph_name :: "string option"
  ph_desc :: "string option"
  ph_read_only :: int
  ph_types :: "prop_object_type set"
  ph_handler :: "prop_handler_t option"

definition struct_of :: "(prop_handler_field \<rightharpoonup> cval) \<Rightarrow> prop_handler" where
  "struct_of m =
     \<lparr>ph_name = (case m F_name of Some (C_str x) \<Rightarrow> Some x | _ \<Rightarrow> None),
      ph_desc = (case m F_desc of Some (C_str x) \<Rightarrow> Some x | _ \<Rightarrow> None),
      ph_read_only = (case m F_read_only of Some (C_int n) \<Rightarrow> n | _ \<Rightarrow> 0),
      ph_types = (case m F_types of Some (C_types T) \<Rightarrow> T | _ \<Rightarrow> {}),
      ph_handler = (case m F_handler of Some (C_fn h) \<Rightarrow> Some h | _ \<Rightarrow> None)\<rparr>"

text \<open>
  props.c, lines 334-362, initializer by initializer. The third entry ends with
  \<^verbatim>\<open>.types = prop_object_inode, prop_compression\<close>: a designated initializer followed by
  one without a designator.
\<close>

definition prop_handlers :: "prop_handler list" where
  "prop_handlers =
     map (\<lambda>ini. struct_of (initialize prop_handler_fields ini Map.empty))
       [[Designated F_name (C_str ''ro''),
         Designated F_desc (C_str ''read-only status of a subvolume''),
         Designated F_read_only (C_int 0),
         Designated F_types (C_types {prop_object_subvol}),
         Designated F_handler (C_fn Fn_prop_read_only)],
        [Designated F_name (C_str ''label''),
         Designated F_desc (C_str ''label of the filesystem''),
         Designated F_read_only (C_int 0),
         Designated F_types (C_types {prop_object_dev, prop_object_root}),
         Designated F_handler (C_fn Fn_prop_label)],
        [Designated F_name (C_str ''compression''),
         Designated F_desc (C_str ''compression algorithm for the file or directory''),
         Designated F_read_only (C_int 0),
         Designated F_types (C_types {prop_object_inode}),
         Positional (C_fn Fn_prop_compression)],
        [Designated F_name (C_str ''allocation_hint''),
         Designated F_desc (C_str ''hint to store the data/metadata chunks''),
         Designated F_types (C_types {prop_object_dev}),
         Designated F_handler (C_fn Fn_prop_allocation_hint)],
        [Positional C_null, Positional C_null, Positional (C_int 0), Positional (C_int 0),
         Positional C_null]]"

text \<open>The entries of the registry are those before the terminator, whose name is null.\<close>

definition registry :: "prop_handler list" where
  "registry = takeWhile (\<lambda>d. ph_name d \<noteq> None) prop_handlers"

section \<open>The resolver's scan, on the answers of the system\<close>

text \<open>
  What becomes of a candidate id, read off what the system answers for it, for a
  filesystem mounted at \<open>mnt\<close> and an input path with the device numbers \<open>rdev\<close>: the
  id is skipped, or it is examined and does not match, or the scan is aborted with a
  status, or the candidate matches and its device id is the result.

  \<open>candidate\<close> is what the loop of props.c does (lemma \<open>scan_body_fst\<close>): the id is
  skipped when the query reports "no such device", the scan is aborted with the
  failure when the query fails otherwise, and with -1 when the path of the entry
  cannot be examined; the candidate matches when the device numbers of its path are
  those of the input path.
\<close>

datatype verdict = Skip | No_match | Abort int | Match c_int

definition candidate :: "env \<Rightarrow> string \<Rightarrow> nat \<times> nat \<Rightarrow> nat \<Rightarrow> verdict" where
  "candidate E mnt rdev i =
     (case dev_info_q E mnt (of_nat i) of
        (ret, info) \<Rightarrow>
          if ret = - errno_num ENODEV then Skip
          else if ret \<noteq> 0 then Abort ret
          else
            (case stat_q E (di_path info) of
               None \<Rightarrow> Abort (- 1)
             | Some st \<Rightarrow> if st = rdev then Match (ucast (di_devid info)) else No_match))"

definition passed :: "verdict \<Rightarrow> bool" where
  "passed v = (v = Skip \<or> v = No_match)"

text \<open>
  The claim about the resolver words it otherwise in one place: an entry lacking a
  path is skipped too. \<open>claimed_candidate\<close> follows the claim's words (of a path that
  is there and cannot be examined the claim says nothing; this case is left as the
  code has it), and \<open>claimed_result\<close> is the result the claim gives for a scan of the
  ids from 0 to \<open>max_id\<close>: that of the first candidate that is neither skipped nor
  examined without a match, and -12 (NotFound) when there is none.
\<close>

definition claimed_candidate :: "env \<Rightarrow> string \<Rightarrow> nat \<times> nat \<Rightarrow> nat \<Rightarrow> verdict" where
  "claimed_candidate E mnt rdev i =
     (case dev_info_q E mnt (of_nat i) of
        (ret, info) \<Rightarrow>
          if ret = - errno_num ENODEV then Skip
          else if ret \<noteq> 0 then Abort ret
          else if di_path info = [] then Skip
          else
            (case stat_q E (di_path info) of
               None \<Rightarrow> Abort (- 1)
             | Some st \<Rightarrow> if st = rdev then Match (ucast (di_devid info)) else No_match))"

fun first_decisive :: "verdict list \<Rightarrow> int \<times> c_int option" where
  "first_decisive [] = (- 12, None)"
| "first_decisive (Skip # vs) = first_decisive vs"
| "first_decisive (No_match # vs) = first_decisive vs"
| "first_decisive (Abort r # vs) = (r, None)"
| "first_decisive (Match d # vs) = (0, Some d)"

definition claimed_result :: "env \<Rightarrow> string \<Rightarrow> nat \<times> nat \<Rightarrow> nat \<Rightarrow> int \<times> c_int option" where
  "claimed_result E mnt rdev max_id =
     first_decisive (map (claimed_candidate E mnt rdev) [0..<Suc max_id])"

text \<open>The device ids queried with \<^verbatim>\<open>get_device_info\<close>, in the order of the calls.\<close>

fun dev_ids :: "call list \<Rightarrow> u64 list" where
  "dev_ids [] = []"
| "dev_ids (Call_get_device_info fd i # cs) = i # dev_ids cs"
| "dev_ids (c # cs) = dev_ids cs"

text \<open>
  Two states that differ at most in the calls recorded and the error messages, and
  two states with the same stores, heap and output.
\<close>

definition same_but_log :: "sys \<Rightarrow> sys \<Rightarrow> bool" where
  "same_but_log s s' =
     (clock s' = clock s \<and> handles s' = handles s \<and> heap s' = heap s \<and> out s' = out s
      \<and> xattrs s' = xattrs s \<and> subvol_ro s' = subvol_ro s \<and> labels s' = labels s
      \<and> dev_types s' = dev_types s)"

definition same_stores :: "sys \<Rightarrow> sys \<Rightarrow> bool" where
  "same_stores s s' =
     (heap s' = heap s \<and> out s' = out s \<and> xattrs s' = xattrs s \<and> subvol_ro s' = subvol_ro s
      \<and> labels s' = labels s \<and> dev_types s' = dev_types s)"

section \<open>What the specification says of the allocation hint\<close>

text \<open>
  The names of the four classes, and the name of the first class, in the order of the
  table, whose value is \<open>v\<close>.
\<close>

definition class_names :: "string list" where
  "class_names = [''PREFERRED_METADATA'', ''METADATA_ONLY'', ''PREFERRED_DATA'', ''DATA_ONLY'']"

definition class_name :: "alloc_consts \<Rightarrow> u64 \<Rightarrow> string option" where
  "class_name K v =
     (if v = BTRFS_DEV_ALLOCATION_PREFERRED_METADATA K then Some ''PREFERRED_METADATA''
      else if v = BTRFS_DEV_ALLOCATION_METADATA_ONLY K then Some ''METADATA_ONLY''
      else if v = BTRFS_DEV_ALLOCATION_PREFERRED_DATA K then Some ''PREFERRED_DATA''
      else if v = BTRFS_DEV_ALLOCATION_DATA_ONLY K then Some ''DATA_ONLY''
      else None)"

text \<open>
  The output of a get as the claim words it: \<^verbatim>\<open>allocation_hint=\<close> followed by the name
  of the class, or by the number when there is none.
\<close>

definition claimed_hint_output :: "alloc_consts \<Rightarrow> u64 \<Rightarrow> string" where
  "claimed_hint_output K v =
     ''allocation_hint='' @ (case class_name K v of Some n \<Rightarrow> n | None \<Rightarrow> dec_nat (unat v))"

section \<open>Concrete systems\<close>

definition E0 :: env where
  "E0 = \<lparr>fault_q = (\<lambda>_. None),
         mount_q = (\<lambda>p. if p = ''/dev/sdb'' \<or> p = ''/dev/sdc'' \<or> p = ''/dev/sdd''
                         then (0, ''/mnt'') else (- 22, [])),
         stat_q = (\<lambda>p. if p = ''/dev/sdb'' then Some (8, 16)
                        else if p = ''/dev/sdc'' then Some (8, 32)
                        else if p = ''/dev/sdd'' then Some (8, 48) else None),
         fs_info_q = (\<lambda>p. if p = ''/mnt'' then Inr 3 else Inl ENOTTY),
         dev_info_q = (\<lambda>p i. if p = ''/mnt'' \<and> i = 1 then (0, \<lparr>di_devid = 1, di_path = ''/dev/sdc''\<rparr>)
                        else if p = ''/mnt'' \<and> i = 2 then (0, \<lparr>di_devid = 2, di_path = []\<rparr>)
                        else if p = ''/mnt'' \<and> i = 3 then (0, \<lparr>di_devid = 3, di_path = ''/dev/sdb''\<rparr>)
                        else (- 19, \<lparr>di_devid = 0, di_path = []\<rparr>))\<rparr>"

definition s0 :: sys where
  "s0 = \<lparr>clock = 0, handles = [], heap = [], trace = [], out = [], errs = [],
         xattrs = (\<lambda>p. if p = ''/mnt/f'' then Some Map.empty else None),
         subvol_ro = [''/mnt/sv'' \<mapsto> False],
         labels = Map.empty,
         dev_types = [(''/mnt'', 1) \<mapsto> 0x15, (''/mnt'', 3) \<mapsto> 0x25]\<rparr>"

definition K0 :: alloc_consts where
  "K0 = \<lparr>BTRFS_DEV_ALLOCATION_MASK = 7,
         BTRFS_DEV_ALLOCATION_PREFERRED_METADATA = 1,
         BTRFS_DEV_ALLOCATION_METADATA_ONLY = 2,
         BTRFS_DEV_ALLOCATION_PREFERRED_DATA = 0,
         BTRFS_DEV_ALLOCATION_DATA_ONLY = 3\<rparr>"

definition E_fault :: "nat \<Rightarrow> errno \<Rightarrow> env" where
  "E_fault n e = E0\<lparr>fault_q := (\<lambda>k. if k = n then Some e else None)\<rparr>"

definition E_abort :: env where
  "E_abort = E0\<lparr>dev_info_q := (\<lambda>p i. if i = 1 then (- 5, \<lparr>di_devid = 0, di_path = []\<rparr>)
                                        else dev_info_q E0 p i)\<rparr>"

definition E_detached :: env where
  "E_detached = E0\<lparr>dev_info_q := (\<lambda>p i. if i = 2 then (- 19, \<lparr>di_devid = 0, di_path = []\<rparr>)
                                           else dev_info_q E0 p i)\<rparr>"

definition E_eperm :: env where
  "E_eperm = E0\<lparr>fs_info_q := (\<lambda>p. Inl EPERM)\<rparr>"

definition s_zstd :: sys where
  "s_zstd = s0\<lparr>xattrs := (\<lambda>p. if p = ''/mnt/f'' then Some [''btrfs.compression'' \<mapsto> ''zstd''] else None)\<rparr>"

section \<open>Theorems\<close>

lemma errno_num_pos: "0 < errno_num e"
  by (cases e) simp_all

subsection \<open>The read-only flag\<close>

text \<open>
  C7. Setting the read-only flag accepts only the literal values \<open>true\<close> and \<open>false\<close>.
  Any other value returns \<open>-EINVAL\<close> (InvalidValue) and the library's set operation is
  not called: no call is recorded and the flags are as before. An accepted value is
  passed to the library's set operation, exactly once and with the flag the literal
  names; when the library fails with errno \<open>e\<close> the handler returns \<open>-e\<close>, a negative
  status, and when it succeeds the handler returns 0.
\<close>

theorem prop_read_only_set_validation:
  "(v \<noteq> ''true'' \<and> v \<noteq> ''false'' \<longrightarrow>
      fst (prop_read_only E ty object name (Some v) s) = - errno_num EINVAL
      \<and> trace (snd (prop_read_only E ty object name (Some v) s)) = trace s
      \<and> clock (snd (prop_read_only E ty object name (Some v) s)) = clock s
      \<and> subvol_ro (snd (prop_read_only E ty object name (Some v) s)) = subvol_ro s)
   \<and> (v = ''true'' \<or> v = ''false'' \<longrightarrow>
      trace (snd (prop_read_only E ty object name (Some v) s))
        = trace s @ [Call_set_subvolume_read_only object (v = ''true'')]
      \<and> (case fst (btrfs_util_set_subvolume_read_only E object (v = ''true'') s) of
            None \<Rightarrow> fst (prop_read_only E ty object name (Some v) s) = 0
          | Some e \<Rightarrow> fst (prop_read_only E ty object name (Some v) s) = - errno_num e
                     \<and> fst (prop_read_only E ty object name (Some v) s) < 0))"
  by (auto simp: prop_read_only_def btrfs_util_set_subvolume_read_only_def error_msg_def
      error_btrfs_util_def tick_def log_call_def Let_def errno_num_pos
      split: option.splits)

theorem prop_read_only_set_validation_witness:
  "fst (prop_read_only E0 prop_object_subvol ''/mnt/sv'' ''ro'' (Some ''yes'') s0) = - 22
   \<and> trace (snd (prop_read_only E0 prop_object_subvol ''/mnt/sv'' ''ro'' (Some ''yes'') s0)) = []
   \<and> trace (snd (prop_read_only E0 prop_object_subvol ''/mnt/sv'' ''ro'' (Some ''true'') s0))
       = [Call_set_subvolume_read_only ''/mnt/sv'' True]
   \<and> fst (prop_read_only E0 prop_object_subvol ''/mnt/sv'' ''ro'' (Some ''true'') s0) = 0
   \<and> fst (prop_read_only E0 prop_object_subvol ''/mnt/x'' ''ro'' (Some ''false'') s0) = - 22"
  using prop_read_only_set_validation [of "''yes''" E0 prop_object_subvol "''/mnt/sv''" "''ro''" s0]
    prop_read_only_set_validation [of "''true''" E0 prop_object_subvol "''/mnt/sv''" "''ro''" s0]
    prop_read_only_set_validation [of "''false''" E0 prop_object_subvol "''/mnt/x''" "''ro''" s0]
  by (simp add: btrfs_util_set_subvolume_read_only_def fault_def E0_def s0_def tick_def
      log_call_def Let_def)

subsection \<open>Error numbers, descriptors and buffers\<close>

lemma errno_num_ENODATA: "errno_num e = 61 \<longleftrightarrow> e = ENODATA"
  by (cases e) simp_all

lemma fresh_from_ge: "m \<le> fresh_from m hs"
proof (induction hs arbitrary: m)
  case Nil
  then show ?case by simp
next
  case (Cons h hs)
  have "max m (fst h + 1) \<le> fresh_from (max m (fst h + 1)) hs" by (rule Cons.IH)
  then show ?case by simp
qed

lemma fresh_from_gt: "h \<in> set hs \<Longrightarrow> fst h < fresh_from m hs"
proof (induction hs arbitrary: m)
  case Nil
  then show ?case by simp
next
  case (Cons a hs)
  show ?case
  proof (cases "h = a")
    case True
    have "max m (fst a + 1) \<le> fresh_from (max m (fst a + 1)) hs" by (rule fresh_from_ge)
    with True show ?thesis by simp
  next
    case False
    with Cons.prems have "h \<in> set hs" by simp
    then show ?thesis using Cons.IH by simp
  qed
qed

lemma fresh_fd_nonneg: "0 \<le> fresh_fd hs"
  by (simp add: fresh_fd_def fresh_from_ge)

lemma fresh_fd_not_neg: "\<not> fresh_fd hs < 0"
  using fresh_fd_nonneg [of hs] by simp

lemma close_fresh_fd: "filter (\<lambda>h. fst h \<noteq> fresh_fd hs) hs = hs"
proof -
  have "\<forall>h \<in> set hs. fst h \<noteq> fresh_fd hs"
    using fresh_from_gt [of _ hs 0] by (force simp: fresh_fd_def)
  then show ?thesis by (simp add: filter_id_conv)
qed

lemma fresh_buf_gt: "b \<in> set bs \<Longrightarrow> b < fresh_buf bs"
proof -
  assume "b \<in> set bs"
  then have "b \<le> Max (insert 0 (set bs))" by simp
  then show ?thesis by (simp add: fresh_buf_def)
qed

lemma free_fresh_buf: "filter (\<lambda>x. x \<noteq> fresh_buf bs) bs = bs"
  using fresh_buf_gt [of _ bs] by (force simp: filter_id_conv)

lemma fresh_buf_Cons_neq: "fresh_buf (b # bs) \<noteq> b"
  using fresh_buf_gt [of b "b # bs"] by simp

lemma free_fresh_buf_Cons: "filter (\<lambda>x. x \<noteq> fresh_buf (b # bs)) bs = bs"
  using fresh_buf_gt [of _ "b # bs"] by (force simp: filter_id_conv)

subsection \<open>The compression property\<close>

lemma compression_out_handles:
  "handles (snd (compression_out xn buf fd ret s)) =
     (if fd \<ge> 0 then filter (\<lambda>h. fst h \<noteq> fd) (handles s) else handles s)"
  by (simp add: compression_out_def close_file_or_dir_def free_def log_call_def Let_def
      split: option.splits)

lemma compression_out_heap:
  "heap (snd (compression_out xn buf fd ret s)) =
     filter (\<lambda>x. Some x \<noteq> buf) (filter (\<lambda>x. Some x \<noteq> xn) (heap s))"
  by (simp add: compression_out_def close_file_or_dir_def free_def log_call_def Let_def
      split: option.splits)

text \<open>
  On every path through \<^verbatim>\<open>prop_compression\<close>, whatever fails and whenever, the handle
  it opened is closed and the buffers it allocated are freed when it returns.
\<close>

lemma prop_compression_releases_handles:
  "handles (snd (prop_compression E ty object name val s)) = handles s"
  by (simp add: prop_compression_def open_file_or_dir3_def malloc_def fsetxattr_def fgetxattr_def
      compression_out_handles error_msg_def printf_def tick_def log_call_def
      Let_def close_fresh_fd fresh_fd_nonneg
      split: option.splits sum.splits prod.splits)

lemma prop_compression_releases_heap:
  "heap (snd (prop_compression E ty object name val s)) = heap s"
  by (simp add: prop_compression_def open_file_or_dir3_def malloc_def fsetxattr_def fgetxattr_def
      compression_out_heap error_msg_def printf_def tick_def log_call_def
      Let_def free_fresh_buf fresh_buf_Cons_neq free_fresh_buf_Cons
      split: option.splits sum.splits prod.splits)

text \<open>
  C4. On an existing file or directory, when no call fails, setting the compression
  to \<open>none\<close> (or \<open>no\<close>) returns 0 and leaves the object without the attribute; the get
  that follows returns 0, prints no line and reports no error.
\<close>

theorem prop_compression_set_none_get:
  assumes "fault_q E = (\<lambda>_. None)" and "xattrs s object = Some xs"
    and "v = ''none'' \<or> v = ''no''"
  shows "fst (prop_compression E ty object name (Some v) s) = 0
     \<and> xattrs (snd (prop_compression E ty object name (Some v) s)) object
          = Some (xs(XATTR_BTRFS_PREFIX @ name := None))
     \<and> fst (prop_compression E ty object name None
               (snd (prop_compression E ty object name (Some v) s))) = 0
     \<and> out (snd (prop_compression E ty object name None
               (snd (prop_compression E ty object name (Some v) s)))) = out s
     \<and> errs (snd (prop_compression E ty object name None
               (snd (prop_compression E ty object name (Some v) s)))) = errs s"
  using assms
  by (auto simp add: prop_compression_def open_file_or_dir3_def malloc_def fsetxattr_def fgetxattr_def
      compression_out_def close_file_or_dir_def free_def error_msg_def printf_def tick_def log_call_def
      Let_def fault_def fresh_fd_nonneg fresh_fd_not_neg ENOATTR_def)

theorem prop_compression_set_none_get_witness:
  "fst (prop_compression E0 prop_object_inode ''/mnt/f'' ''compression'' (Some ''none'') s_zstd) = 0
   \<and> fst (prop_compression E0 prop_object_inode ''/mnt/f'' ''compression'' None
        (snd (prop_compression E0 prop_object_inode ''/mnt/f'' ''compression'' (Some ''none'') s_zstd))) = 0
   \<and> out (snd (prop_compression E0 prop_object_inode ''/mnt/f'' ''compression'' None
        (snd (prop_compression E0 prop_object_inode ''/mnt/f'' ''compression'' (Some ''none'') s_zstd)))) = []"
proof -
  have 1: "fault_q E0 = (\<lambda>_. None)" by (simp add: E0_def)
  have 2: "xattrs s_zstd ''/mnt/f'' = Some [''btrfs.compression'' \<mapsto> ''zstd'']"
    by (simp add: s_zstd_def)
  have 3: "out s_zstd = []" by (simp add: s_zstd_def s0_def)
  show ?thesis
    using prop_compression_set_none_get [where v = "''none''" and ty = prop_object_inode
        and name = "''compression''", OF 1 2] 3
    by simp
qed

text \<open>
  A get of an attribute that is stored with the empty value prints a line with an
  empty value: that the get after a set of \<open>none\<close> prints nothing rests on the
  filesystem leaving no attribute behind.
\<close>

lemma prop_compression_get_empty_value:
  assumes "fault_q E = (\<lambda>_. None)" and "xattrs s object = Some xs"
    and "xs (XATTR_BTRFS_PREFIX @ name) = Some []"
  shows "fst (prop_compression E ty object name None s) = 0
     \<and> out (snd (prop_compression E ty object name None s)) = out s @ [''compression='' @ nl]"
  using assms
  by (simp add: prop_compression_def open_file_or_dir3_def malloc_def fgetxattr_def
      compression_out_def close_file_or_dir_def free_def printf_def tick_def log_call_def
      Let_def fault_def fresh_fd_not_neg)

text \<open>
  C5. A compression get on an object that can be opened (the open and the allocation
  of the attribute's name succeed). When the read of the attribute's length reports
  that the attribute does not exist (the store has none, or the call fails with
  \<open>ENOATTR\<close>), the get returns 0, prints no line and reports no error. When that read
  fails with another errno \<open>e\<close>, the get returns \<open>-e\<close>, a negative status, prints no
  line and reports the error. When the attribute exists and the read of its value
  fails with any errno \<open>e'\<close>, the get returns \<open>-e'\<close> and reports the error.
\<close>

theorem prop_compression_get_absent:
  assumes "xattrs s object = Some xs"
    and "fault_q E (clock s) = None" and "fault_q E (Suc (clock s)) = None"
  shows "((fault_q E (Suc (Suc (clock s))) = Some ENOATTR
           \<or> fault_q E (Suc (Suc (clock s))) = None \<and> xs (XATTR_BTRFS_PREFIX @ name) = None) \<longrightarrow>
          fst (prop_compression E ty object name None s) = 0
          \<and> out (snd (prop_compression E ty object name None s)) = out s
          \<and> errs (snd (prop_compression E ty object name None s)) = errs s)
     \<and> (fault_q E (Suc (Suc (clock s))) = Some e \<and> e \<noteq> ENOATTR \<longrightarrow>
          fst (prop_compression E ty object name None s) = - errno_num e
          \<and> fst (prop_compression E ty object name None s) < 0
          \<and> out (snd (prop_compression E ty object name None s)) = out s
          \<and> errs (snd (prop_compression E ty object name None s))
              = errs s @ [Msg ''failed to %s compression for %s: %m'' [''get'', object] (Some e)])
     \<and> (fault_q E (Suc (Suc (clock s))) = None \<and> xs (XATTR_BTRFS_PREFIX @ name) = Some v
            \<and> fault_q E (Suc (Suc (Suc (clock s)))) = None
            \<and> fault_q E (Suc (Suc (Suc (Suc (clock s))))) = Some e' \<longrightarrow>
          fst (prop_compression E ty object name None s) = - errno_num e'
          \<and> fst (prop_compression E ty object name None s) < 0
          \<and> out (snd (prop_compression E ty object name None s)) = out s
          \<and> errs (snd (prop_compression E ty object name None s))
              = errs s @ [Msg ''failed to get compression for %s: %m'' [object] (Some e')])"
  using assms
  by (auto simp add: prop_compression_def open_file_or_dir3_def malloc_def fsetxattr_def fgetxattr_def
      compression_out_def close_file_or_dir_def free_def error_msg_def printf_def tick_def log_call_def
      Let_def fault_def fresh_fd_nonneg fresh_fd_not_neg ENOATTR_def errno_num_ENODATA errno_num_pos)

theorem prop_compression_get_absent_witness:
  "(fst (prop_compression E0 prop_object_inode ''/mnt/f'' ''compression'' None s0) = 0
   \<and> out (snd (prop_compression E0 prop_object_inode ''/mnt/f'' ''compression'' None s0)) = []
   \<and> errs (snd (prop_compression E0 prop_object_inode ''/mnt/f'' ''compression'' None s0)) = [])
   \<and> fst (prop_compression (E_fault 2 EIO) prop_object_inode ''/mnt/f'' ''compression'' None s_zstd) = - 5
   \<and> (fst (prop_compression (E_fault 4 ENODATA) prop_object_inode ''/mnt/f'' ''compression'' None s_zstd) = - 61
     \<and> errs (snd (prop_compression (E_fault 4 ENODATA) prop_object_inode ''/mnt/f'' ''compression'' None s_zstd))
       = [Msg ''failed to get compression for %s: %m'' [''/mnt/f''] (Some ENODATA)])"
proof -
  have a: "xattrs s0 ''/mnt/f'' = Some Map.empty" "clock s0 = 0" "out s0 = []" "errs s0 = []"
    by (simp_all add: s0_def)
  have b: "xattrs s_zstd ''/mnt/f'' = Some [''btrfs.compression'' \<mapsto> ''zstd'']"
    "clock s_zstd = 0" "out s_zstd = []" "errs s_zstd = []"
    by (simp_all add: s_zstd_def s0_def)
  have f0: "fault_q E0 n = None" for n by (simp add: E0_def)
  have f: "fault_q (E_fault n e) k = (if k = n then Some e else None)" for n e k
    by (simp add: E_fault_def)
  have 1: "fst (prop_compression E0 prop_object_inode ''/mnt/f'' ''compression'' None s0) = 0
   \<and> out (snd (prop_compression E0 prop_object_inode ''/mnt/f'' ''compression'' None s0)) = []
   \<and> errs (snd (prop_compression E0 prop_object_inode ''/mnt/f'' ''compression'' None s0)) = []"
    using prop_compression_get_absent [where s = s0 and E = E0 and name = "''compression''"
        and ty = prop_object_inode, OF a(1) f0 f0]
    by (simp add: a f0)
  have 2: "fst (prop_compression (E_fault 2 EIO) prop_object_inode ''/mnt/f'' ''compression'' None s_zstd) = - 5"
    using prop_compression_get_absent [where s = s_zstd and E = "E_fault 2 EIO"
        and name = "''compression''" and ty = prop_object_inode and e = EIO, OF b(1)]
    by (simp add: b f ENOATTR_def)
  have 3: "fst (prop_compression (E_fault 4 ENODATA) prop_object_inode ''/mnt/f'' ''compression'' None s_zstd) = - 61
     \<and> errs (snd (prop_compression (E_fault 4 ENODATA) prop_object_inode ''/mnt/f'' ''compression'' None s_zstd))
       = [Msg ''failed to get compression for %s: %m'' [''/mnt/f''] (Some ENODATA)]"
    using prop_compression_get_absent [where s = s_zstd and E = "E_fault 4 ENODATA"
        and name = "''compression''" and ty = prop_object_inode and v = "''zstd''" and e' = ENODATA,
        OF b(1)]
    by (simp add: b f XATTR_BTRFS_PREFIX_def)
  from 1 2 3 show ?thesis by blast
qed

subsection \<open>The table of properties\<close>

text \<open>
  C6. The names of the registry's entries are pairwise different; every entry has a
  set of applicable types that is not empty and a handler that is not null; and the
  entry named \<open>compression\<close>, whose handler is written after \<^verbatim>\<open>.types\<close> without a
  designator, has exactly the type inode and the compression handler.
\<close>

theorem registry_invariant:
  "distinct (map ph_name registry)
   \<and> list_all (\<lambda>d. ph_types d \<noteq> {} \<and> ph_handler d \<noteq> None) registry
   \<and> map (\<lambda>d. (ph_types d, ph_handler d))
        (filter (\<lambda>d. ph_name d = Some ''compression'') registry)
      = [({prop_object_inode}, Some Fn_prop_compression)]"
  by (simp add: registry_def prop_handlers_def struct_of_def prop_handler_fields_def)

subsection \<open>The device resolver\<close>

lemma dev_ids_append: "dev_ids (xs @ ys) = dev_ids xs @ dev_ids ys"
  by (induction xs rule: dev_ids.induct) simp_all

lemma same_but_log_refl: "same_but_log s s"
  by (simp add: same_but_log_def)

lemma same_but_log_trans: "same_but_log s s1 \<Longrightarrow> same_but_log s1 s2 \<Longrightarrow> same_but_log s s2"
  by (simp add: same_but_log_def)

lemma same_stores_trans: "same_stores s s1 \<Longrightarrow> same_stores s1 s2 \<Longrightarrow> same_stores s s2"
  by (simp add: same_stores_def)

lemma same_but_log_stores: "same_but_log s s' \<Longrightarrow> same_stores s s'"
  by (simp add: same_but_log_def same_stores_def)

lemma close_stores: "same_stores s (close_file_or_dir fd s)"
  by (simp add: same_stores_def close_file_or_dir_def log_call_def)

lemma close_ids: "dev_ids (trace (close_file_or_dir fd s)) = dev_ids (trace s)"
  by (simp add: close_file_or_dir_def log_call_def dev_ids_append)

text \<open>One turn of the loop changes nothing but the record of calls and messages.\<close>

lemma scan_body_frame: "same_but_log s (snd (scan_body E devpath fd rdev i s))"
  by (simp add: scan_body_def get_device_info_def stat_def log_call_def error_msg_def
      path_is_null_def same_but_log_def split: prod.splits option.splits)

text \<open>One turn of the loop decides as \<open>candidate\<close> says.\<close>

lemma scan_body_fst:
  assumes "map_of (handles s) fd = Some mnt"
  shows "fst (scan_body E devpath fd rdev i s) =
     (case candidate E mnt rdev i of
        Skip \<Rightarrow> None | No_match \<Rightarrow> None
      | Abort r \<Rightarrow> Some (r, None) | Match d \<Rightarrow> Some (0, Some d))"
  using assms
  by (auto simp add: scan_body_def candidate_def get_device_info_def stat_def log_call_def
      error_msg_def path_is_null_def prod_eq_iff split: prod.splits option.splits)

lemma scan_body_ids:
  "dev_ids (trace (snd (scan_body E devpath fd rdev i s))) = dev_ids (trace s) @ [of_nat i]"
  by (simp add: scan_body_def get_device_info_def stat_def log_call_def error_msg_def
      path_is_null_def dev_ids_append split: prod.splits option.splits)

lemma scan_loop_frame:
  "scan_loop E devpath fd rdev max_id i s = Some (r, s') \<Longrightarrow> same_but_log s s'"
proof (induction E devpath fd rdev max_id i s rule: scan_loop.induct)
  case (1 E devpath fd rdev max_id i s)
  show ?case
  proof (cases "i \<le> unat max_id")
    case False
    with "1.prems" show ?thesis
      by (simp add: scan_loop.simps [of E devpath fd rdev max_id i s] same_but_log_refl)
  next
    case True
    obtain b s1 where b: "scan_body E devpath fd rdev i s = (b, s1)"
      by (cases "scan_body E devpath fd rdev i s")
    have f: "same_but_log s s1"
      using scan_body_frame [of s E devpath fd rdev i] b by simp
    show ?thesis
    proof (cases b)
      case (Some x)
      with True b "1.prems" f show ?thesis
        by (simp add: scan_loop.simps [of E devpath fd rdev max_id i s])
    next
      case None
      show ?thesis
      proof (cases "i < INT_MAX")
        case False
        with True b None "1.prems" show ?thesis
          by (simp add: scan_loop.simps [of E devpath fd rdev max_id i s])
      next
        case lt: True
        from True b None lt "1.prems"
        have "scan_loop E devpath fd rdev max_id (Suc i) s1 = Some (r, s')"
          by (simp add: scan_loop.simps [of E devpath fd rdev max_id i s])
        then have "same_but_log s1 s'"
          using "1.IH" [OF True b [symmetric] _ lt] None by simp
        with f show ?thesis by (rule same_but_log_trans)
      qed
    qed
  qed
qed

text \<open>
  While the candidates from \<open>i\<close> to \<open>k\<close> are skipped or do not match, the loop runs
  from \<open>i\<close> to \<open>k\<close>, querying exactly these ids, in this order.
\<close>

lemma scan_loop_steps:
  assumes "map_of (handles s) fd = Some mnt"
    and "\<forall>j. i \<le> j \<and> j < k \<longrightarrow> passed (candidate E mnt rdev j)"
    and "i \<le> k" and "k \<le> Suc (unat max_id)" and "k \<le> INT_MAX"
  shows "\<exists>s'. scan_loop E devpath fd rdev max_id i s = scan_loop E devpath fd rdev max_id k s'
             \<and> same_but_log s s'
             \<and> dev_ids (trace s') = dev_ids (trace s) @ map of_nat [i..<k]"
  using assms
proof (induction "k - i" arbitrary: i s)
  case 0
  then have "i = k" by simp
  then show ?case using same_but_log_refl by auto
next
  case (Suc n)
  then have lt: "i < k" by simp
  obtain b s1 where b: "scan_body E devpath fd rdev i s = (b, s1)"
    by (cases "scan_body E devpath fd rdev i s")
  have f: "same_but_log s s1"
    using scan_body_frame [of s E devpath fd rdev i] b by simp
  have ids1: "dev_ids (trace s1) = dev_ids (trace s) @ [of_nat i]"
    using scan_body_ids [of E devpath fd rdev i s] b by simp
  have "passed (candidate E mnt rdev i)"
    using Suc.prems(2) lt by simp
  then have bn: "b = None"
    using scan_body_fst [OF Suc.prems(1), of E devpath rdev i] b
    by (auto simp: passed_def)
  have le: "i \<le> unat max_id" and lim: "i < INT_MAX"
    using lt Suc.prems(4,5) by simp_all
  have step: "scan_loop E devpath fd rdev max_id i s = scan_loop E devpath fd rdev max_id (Suc i) s1"
    using b bn le lim by (simp add: scan_loop.simps [of E devpath fd rdev max_id i s])
  have h1: "map_of (handles s1) fd = Some mnt"
    using f Suc.prems(1) by (simp add: same_but_log_def)
  have "\<exists>s'. scan_loop E devpath fd rdev max_id (Suc i) s1 = scan_loop E devpath fd rdev max_id k s'
             \<and> same_but_log s1 s'
             \<and> dev_ids (trace s') = dev_ids (trace s1) @ map of_nat [Suc i..<k]"
  proof (rule Suc.hyps(1))
    show "n = k - Suc i" using Suc.hyps(2) by simp
    show "map_of (handles s1) fd = Some mnt" by (rule h1)
    show "\<forall>j. Suc i \<le> j \<and> j < k \<longrightarrow> passed (candidate E mnt rdev j)"
      using Suc.prems(2) by simp
    show "Suc i \<le> k" using lt by simp
    show "k \<le> Suc (unat max_id)" by (rule Suc.prems(4))
    show "k \<le> INT_MAX" by (rule Suc.prems(5))
  qed
  then obtain s' where s': "scan_loop E devpath fd rdev max_id (Suc i) s1 = scan_loop E devpath fd rdev max_id k s'"
    "same_but_log s1 s'" "dev_ids (trace s') = dev_ids (trace s1) @ map of_nat [Suc i..<k]" by blast
  have "same_but_log s s'" using f s'(2) by (rule same_but_log_trans)
  moreover have "dev_ids (trace s') = dev_ids (trace s) @ map of_nat [i..<k]"
    using s'(3) ids1 lt by (simp add: upt_conv_Cons)
  ultimately show ?case using step s'(1) by auto
qed

lemma scan_loop_result:
  assumes h: "map_of (handles s) fd = Some mnt"
    and p: "\<forall>j<k. passed (candidate E mnt rdev j)"
    and k: "k \<le> unat max_id" "k \<le> INT_MAX"
    and c: "(case candidate E mnt rdev k of
               Skip \<Rightarrow> None | No_match \<Rightarrow> None
             | Abort r \<Rightarrow> Some (r, None) | Match d \<Rightarrow> Some (0, Some d)) = Some res"
  shows "\<exists>s'. scan_loop E devpath fd rdev max_id 0 s = Some (res, s')
            \<and> same_but_log s s'
            \<and> dev_ids (trace s') = dev_ids (trace s) @ map of_nat [0..<Suc k]"
proof -
  obtain s1 where s1: "scan_loop E devpath fd rdev max_id 0 s = scan_loop E devpath fd rdev max_id k s1"
    "same_but_log s s1" "dev_ids (trace s1) = dev_ids (trace s) @ map of_nat [0..<k]"
    using scan_loop_steps [OF h, of 0 k E rdev max_id devpath] p k by auto
  have h1: "map_of (handles s1) fd = Some mnt"
    using s1(2) h by (simp add: same_but_log_def)
  obtain b s2 where b: "scan_body E devpath fd rdev k s1 = (b, s2)"
    by (cases "scan_body E devpath fd rdev k s1")
  have "b = Some res"
    using scan_body_fst [OF h1, of E devpath rdev k] b c by simp
  then have "scan_loop E devpath fd rdev max_id k s1 = Some (res, s2)"
    using b k by (simp add: scan_loop.simps [of E devpath fd rdev max_id k s1])
  moreover have "same_but_log s s2"
    using scan_body_frame [of s1 E devpath fd rdev k] b s1(2) same_but_log_trans by fastforce
  moreover have "dev_ids (trace s2) = dev_ids (trace s) @ map of_nat [0..<Suc k]"
    using scan_body_ids [of E devpath fd rdev k s1] b s1(3) by simp
  ultimately show ?thesis using s1(1) by simp
qed

lemma scan_loop_exhausted:
  assumes h: "map_of (handles s) fd = Some mnt"
    and p: "\<forall>j\<le>unat max_id. passed (candidate E mnt rdev j)"
    and k: "unat max_id < INT_MAX"
  shows "\<exists>s'. scan_loop E devpath fd rdev max_id 0 s = Some ((- 12, None), s')
            \<and> same_but_log s s'
            \<and> dev_ids (trace s') = dev_ids (trace s) @ map of_nat [0..<Suc (unat max_id)]"
proof -
  obtain s1 where s1: "scan_loop E devpath fd rdev max_id 0 s
       = scan_loop E devpath fd rdev max_id (Suc (unat max_id)) s1"
    "same_but_log s s1" "dev_ids (trace s1) = dev_ids (trace s) @ map of_nat [0..<Suc (unat max_id)]"
    using scan_loop_steps [OF h, of 0 "Suc (unat max_id)" E rdev max_id devpath] p k
    by (auto simp: less_Suc_eq_le)
  have "scan_loop E devpath fd rdev max_id (Suc (unat max_id)) s1 = Some ((- 12, None), s1)"
    by (simp add: scan_loop.simps [of E devpath fd rdev max_id "Suc (unat max_id)" s1])
  then show ?thesis using s1 by auto
qed

text \<open>
  When the mount point is found, the directory opens, the input path can be examined
  and the filesystem answers its highest device id, the resolver enters the loop with
  the directory open, and closes it after the loop.
\<close>

lemma resolver_reaches_scan:
  assumes "mount_q E devpath = (0, mnt)" and "fault_q E (clock s) = None"
    and "stat_q E devpath = Some rdev" and "fs_info_q E mnt = Inr max_id"
  shows "\<exists>s4. map_of (handles s4) (fresh_fd (handles s)) = Some mnt
      \<and> handles s4 = (fresh_fd (handles s), mnt) # handles s
      \<and> clock s4 = Suc (clock s) \<and> same_stores s s4
      \<and> dev_ids (trace s4) = dev_ids (trace s)
      \<and> btrfs_find_devid_and_mnt E devpath s =
          (case scan_loop E devpath (fresh_fd (handles s)) rdev max_id 0 s4 of
             None \<Rightarrow> None
           | Some ((ret, devid), s5) \<Rightarrow>
               Some ((ret, devid, mnt), close_file_or_dir (fresh_fd (handles s)) s5))"
proof -
  let ?s4 = "s\<lparr>clock := Suc (clock s),
                handles := (fresh_fd (handles s), mnt) # handles s,
                trace := trace s @ [Call_get_btrfs_mount devpath, Call_btrfs_open_dir mnt,
                           Call_stat devpath, Call_ioctl_fs_info (fresh_fd (handles s))]\<rparr>"
  have "map_of (handles ?s4) (fresh_fd (handles s)) = Some mnt
      \<and> handles ?s4 = (fresh_fd (handles s), mnt) # handles s
      \<and> clock ?s4 = Suc (clock s) \<and> same_stores s ?s4
      \<and> dev_ids (trace ?s4) = dev_ids (trace s)
      \<and> btrfs_find_devid_and_mnt E devpath s =
          (case scan_loop E devpath (fresh_fd (handles s)) rdev max_id 0 ?s4 of
             None \<Rightarrow> None
           | Some ((ret, devid), s5) \<Rightarrow>
               Some ((ret, devid, mnt), close_file_or_dir (fresh_fd (handles s)) s5))"
    using assms
    by (simp add: btrfs_find_devid_and_mnt_def get_btrfs_mount_def btrfs_open_dir_def stat_def
        ioctl_fs_info_def fault_def tick_def log_call_def Let_def fresh_fd_not_neg same_stores_def
        dev_ids_append)
  then show ?thesis by (rule exI)
qed

text \<open>
  Whatever the resolver returns, it leaves the stores, the heap and the output as they
  were; the directory it opened is closed again, except when it returns \<open>-EPERM\<close>
  for a refused filesystem query.
\<close>

lemma resolver_frame:
  assumes "btrfs_find_devid_and_mnt E devpath s = Some ((ret, dw, mnt), s')"
  shows "same_stores s s'
     \<and> (handles s' = handles s
         \<or> ret = - errno_num EPERM \<and> handles s' = (fresh_fd (handles s), mnt) # handles s)
     \<and> (ret = 0 \<longrightarrow> clock s' = Suc (clock s) \<and> fault_q E (clock s) = None)"
proof -
  obtain r0 path where m: "mount_q E devpath = (r0, path)" by (cases "mount_q E devpath")
  show ?thesis
  proof (cases "r0 = 0")
    case False
    with assms m show ?thesis
      by (auto simp: btrfs_find_devid_and_mnt_def get_btrfs_mount_def log_call_def same_stores_def)
  next
    case r0: True
    show ?thesis
    proof (cases "fault_q E (clock s)")
      case (Some e)
      with assms m r0 errno_num_pos [of e] show ?thesis
        by (auto simp: btrfs_find_devid_and_mnt_def get_btrfs_mount_def btrfs_open_dir_def
            fault_def tick_def log_call_def same_stores_def Let_def)
    next
      case o: None
      show ?thesis
      proof (cases "stat_q E devpath")
        case None
        with assms m r0 o show ?thesis
          by (auto simp: btrfs_find_devid_and_mnt_def get_btrfs_mount_def btrfs_open_dir_def
              stat_def fault_def tick_def log_call_def same_stores_def Let_def fresh_fd_not_neg
              close_file_or_dir_def error_msg_def close_fresh_fd)
      next
        case st: (Some rdev)
        show ?thesis
        proof (cases "fs_info_q E path")
          case (Inl e)
          with assms m r0 o st show ?thesis
            by (auto simp: btrfs_find_devid_and_mnt_def get_btrfs_mount_def btrfs_open_dir_def
                stat_def ioctl_fs_info_def fault_def tick_def log_call_def same_stores_def Let_def
                fresh_fd_not_neg close_file_or_dir_def error_msg_def close_fresh_fd
                split: if_splits)
        next
          case (Inr max_id)
          obtain s4 where s4: "handles s4 = (fresh_fd (handles s), path) # handles s"
            "clock s4 = Suc (clock s)" "same_stores s s4"
            "btrfs_find_devid_and_mnt E devpath s =
              (case scan_loop E devpath (fresh_fd (handles s)) rdev max_id 0 s4 of
                 None \<Rightarrow> None
               | Some ((ret, devid), s5) \<Rightarrow>
                   Some ((ret, devid, path), close_file_or_dir (fresh_fd (handles s)) s5))"
            using resolver_reaches_scan [of E devpath path s rdev max_id] m r0 o st Inr by auto
          from assms s4(4) obtain s5 where
            s5: "scan_loop E devpath (fresh_fd (handles s)) rdev max_id 0 s4 = Some ((ret, dw), s5)"
            and e: "s' = close_file_or_dir (fresh_fd (handles s)) s5" "mnt = path"
            by (auto split: option.splits)
          have f: "same_but_log s4 s5" using scan_loop_frame [OF s5] .
          have "same_stores s s5"
            using s4(3) same_but_log_stores [OF f] by (rule same_stores_trans)
          then have 1: "same_stores s s'"
            using e(1) close_stores same_stores_trans by blast
          have 2: "handles s' = handles s"
            using e(1) f s4(1) by (simp add: close_file_or_dir_def log_call_def same_but_log_def
                close_fresh_fd)
          have 3: "clock s' = Suc (clock s)"
            using e(1) f s4(2) by (simp add: close_file_or_dir_def log_call_def same_but_log_def)
          from 1 2 3 o show ?thesis by simp
        qed
      qed
    qed
  qed
qed

lemma resolver_found:
  assumes "mount_q E devpath = (0, mnt)" and "fault_q E (clock s) = None"
    and "stat_q E devpath = Some rdev" and "fs_info_q E mnt = Inr max_id"
    and "k \<le> unat max_id" and "k \<le> INT_MAX"
    and "\<forall>j<k. passed (candidate E mnt rdev j)" and "candidate E mnt rdev k = Match d"
  shows "\<exists>s1. btrfs_find_devid_and_mnt E devpath s = Some ((0, Some d, mnt), s1)"
proof -
  obtain s4 where s4: "map_of (handles s4) (fresh_fd (handles s)) = Some mnt"
    "btrfs_find_devid_and_mnt E devpath s =
          (case scan_loop E devpath (fresh_fd (handles s)) rdev max_id 0 s4 of
             None \<Rightarrow> None
           | Some ((ret, devid), s5) \<Rightarrow>
               Some ((ret, devid, mnt), close_file_or_dir (fresh_fd (handles s)) s5))"
    using resolver_reaches_scan [OF assms(1-4)] by blast
  obtain s5 where "scan_loop E devpath (fresh_fd (handles s)) rdev max_id 0 s4 = Some ((0, Some d), s5)"
    using scan_loop_result [OF s4(1) assms(7) assms(5) assms(6), of "(0, Some d)" devpath] assms(8)
    by auto
  then show ?thesis using s4(2) by simp
qed

text \<open>
  The scan of the code. For an input path whose mount point is found, whose mount
  directory opens and which \<^verbatim>\<open>stat\<close> can examine, with \<open>rdev\<close> its device numbers:

  \<^item> when the filesystem answers the highest id \<open>max_id\<close>, the candidates below \<open>k\<close> are all
    skipped (no such device) or do not match, and the candidate \<open>k \<le> max_id\<close> matches,
    the resolver returns 0 with the device id of the candidate \<open>k\<close>, and the ids it has
    queried are exactly 0, 1, ..., \<open>k\<close> in this order;
  \<^item> when instead the query of the candidate \<open>k\<close> fails otherwise, or its path cannot be
    examined, the resolver returns that failure, having queried exactly 0, ..., \<open>k\<close>;
  \<^item> when every candidate from 0 to \<open>max_id\<close> is skipped or does not match, the resolver
    returns -12 (NotFound), having queried exactly 0, ..., \<open>max_id\<close>;
  \<^item> when the query of the filesystem is refused with \<open>EPERM\<close>, the resolver returns
    \<open>-EPERM\<close> and has queried no device: the calls it made are the mount lookup, the
    open, the \<^verbatim>\<open>stat\<close> and the refused query.

  The loop counter is a C \<^verbatim>\<open>int\<close>: the candidates in question lie below \<open>INT_MAX\<close>.
\<close>

lemma resolver_scan:
  assumes m: "mount_q E devpath = (0, mnt)" and o: "fault_q E (clock s) = None"
    and st: "stat_q E devpath = Some rdev"
  shows "(fs_info_q E mnt = Inr max_id \<and> k \<le> unat max_id \<and> k \<le> INT_MAX
            \<and> (\<forall>j<k. passed (candidate E mnt rdev j)) \<and> candidate E mnt rdev k = Match d \<longrightarrow>
          map_option fst (btrfs_find_devid_and_mnt E devpath s) = Some (0, Some d, mnt)
          \<and> map_option (dev_ids \<circ> trace \<circ> snd) (btrfs_find_devid_and_mnt E devpath s)
              = Some (dev_ids (trace s) @ map of_nat [0..<Suc k]))
     \<and> (fs_info_q E mnt = Inr max_id \<and> k \<le> unat max_id \<and> k \<le> INT_MAX
            \<and> (\<forall>j<k. passed (candidate E mnt rdev j)) \<and> candidate E mnt rdev k = Abort r \<longrightarrow>
          map_option fst (btrfs_find_devid_and_mnt E devpath s) = Some (r, None, mnt)
          \<and> map_option (dev_ids \<circ> trace \<circ> snd) (btrfs_find_devid_and_mnt E devpath s)
              = Some (dev_ids (trace s) @ map of_nat [0..<Suc k]))
     \<and> (fs_info_q E mnt = Inr max_id \<and> unat max_id < INT_MAX
            \<and> (\<forall>j\<le>unat max_id. passed (candidate E mnt rdev j)) \<longrightarrow>
          map_option fst (btrfs_find_devid_and_mnt E devpath s) = Some (- 12, None, mnt)
          \<and> map_option (dev_ids \<circ> trace \<circ> snd) (btrfs_find_devid_and_mnt E devpath s)
              = Some (dev_ids (trace s) @ map of_nat [0..<Suc (unat max_id)]))
     \<and> (fs_info_q E mnt = Inl EPERM \<longrightarrow>
          map_option fst (btrfs_find_devid_and_mnt E devpath s) = Some (- errno_num EPERM, None, mnt)
          \<and> map_option (trace \<circ> snd) (btrfs_find_devid_and_mnt E devpath s)
              = Some (trace s @ [Call_get_btrfs_mount devpath, Call_btrfs_open_dir mnt,
                     Call_stat devpath, Call_ioctl_fs_info (fresh_fd (handles s))]))"
proof (intro conjI impI)
  assume a: "fs_info_q E mnt = Inr max_id \<and> k \<le> unat max_id \<and> k \<le> INT_MAX
            \<and> (\<forall>j<k. passed (candidate E mnt rdev j)) \<and> candidate E mnt rdev k = Match d"
  obtain s4 where s4: "map_of (handles s4) (fresh_fd (handles s)) = Some mnt"
    "dev_ids (trace s4) = dev_ids (trace s)"
    "btrfs_find_devid_and_mnt E devpath s =
          (case scan_loop E devpath (fresh_fd (handles s)) rdev max_id 0 s4 of
             None \<Rightarrow> None
           | Some ((ret, devid), s5) \<Rightarrow>
               Some ((ret, devid, mnt), close_file_or_dir (fresh_fd (handles s)) s5))"
    using resolver_reaches_scan [OF m o st, of max_id] a by blast
  obtain s5 where s5: "scan_loop E devpath (fresh_fd (handles s)) rdev max_id 0 s4 = Some ((0, Some d), s5)"
    "dev_ids (trace s5) = dev_ids (trace s4) @ map of_nat [0..<Suc k]"
    using scan_loop_result [OF s4(1), of k E rdev max_id "(0, Some d)" devpath] a by auto
  show "map_option fst (btrfs_find_devid_and_mnt E devpath s) = Some (0, Some d, mnt)"
    using s4(3) s5(1) by simp
  show "map_option (dev_ids \<circ> trace \<circ> snd) (btrfs_find_devid_and_mnt E devpath s)
              = Some (dev_ids (trace s) @ map of_nat [0..<Suc k])"
    using s4(2,3) s5 by (simp add: close_ids)
next
  assume a: "fs_info_q E mnt = Inr max_id \<and> k \<le> unat max_id \<and> k \<le> INT_MAX
            \<and> (\<forall>j<k. passed (candidate E mnt rdev j)) \<and> candidate E mnt rdev k = Abort r"
  obtain s4 where s4: "map_of (handles s4) (fresh_fd (handles s)) = Some mnt"
    "dev_ids (trace s4) = dev_ids (trace s)"
    "btrfs_find_devid_and_mnt E devpath s =
          (case scan_loop E devpath (fresh_fd (handles s)) rdev max_id 0 s4 of
             None \<Rightarrow> None
           | Some ((ret, devid), s5) \<Rightarrow>
               Some ((ret, devid, mnt), close_file_or_dir (fresh_fd (handles s)) s5))"
    using resolver_reaches_scan [OF m o st, of max_id] a by blast
  obtain s5 where s5: "scan_loop E devpath (fresh_fd (handles s)) rdev max_id 0 s4 = Some ((r, None), s5)"
    "dev_ids (trace s5) = dev_ids (trace s4) @ map of_nat [0..<Suc k]"
    using scan_loop_result [OF s4(1), of k E rdev max_id "(r, None)" devpath] a by auto
  show "map_option fst (btrfs_find_devid_and_mnt E devpath s) = Some (r, None, mnt)"
    using s4(3) s5(1) by simp
  show "map_option (dev_ids \<circ> trace \<circ> snd) (btrfs_find_devid_and_mnt E devpath s)
              = Some (dev_ids (trace s) @ map of_nat [0..<Suc k])"
    using s4(2,3) s5 by (simp add: close_ids)
next
  assume a: "fs_info_q E mnt = Inr max_id \<and> unat max_id < INT_MAX
            \<and> (\<forall>j\<le>unat max_id. passed (candidate E mnt rdev j))"
  obtain s4 where s4: "map_of (handles s4) (fresh_fd (handles s)) = Some mnt"
    "dev_ids (trace s4) = dev_ids (trace s)"
    "btrfs_find_devid_and_mnt E devpath s =
          (case scan_loop E devpath (fresh_fd (handles s)) rdev max_id 0 s4 of
             None \<Rightarrow> None
           | Some ((ret, devid), s5) \<Rightarrow>
               Some ((ret, devid, mnt), close_file_or_dir (fresh_fd (handles s)) s5))"
    using resolver_reaches_scan [OF m o st, of max_id] a by blast
  obtain s5 where s5: "scan_loop E devpath (fresh_fd (handles s)) rdev max_id 0 s4 = Some ((- 12, None), s5)"
    "dev_ids (trace s5) = dev_ids (trace s4) @ map of_nat [0..<Suc (unat max_id)]"
    using scan_loop_exhausted [OF s4(1), of max_id E rdev devpath] a by auto
  show "map_option fst (btrfs_find_devid_and_mnt E devpath s) = Some (- 12, None, mnt)"
    using s4(3) s5(1) by simp
  show "map_option (dev_ids \<circ> trace \<circ> snd) (btrfs_find_devid_and_mnt E devpath s)
              = Some (dev_ids (trace s) @ map of_nat [0..<Suc (unat max_id)])"
    using s4(2,3) s5 by (simp add: close_ids)
next
  assume a: "fs_info_q E mnt = Inl EPERM"
  show "map_option fst (btrfs_find_devid_and_mnt E devpath s) = Some (- errno_num EPERM, None, mnt)"
    using m o st a
    by (simp add: btrfs_find_devid_and_mnt_def get_btrfs_mount_def btrfs_open_dir_def stat_def
        ioctl_fs_info_def fault_def tick_def log_call_def Let_def fresh_fd_not_neg)
  show "map_option (trace \<circ> snd) (btrfs_find_devid_and_mnt E devpath s)
              = Some (trace s @ [Call_get_btrfs_mount devpath, Call_btrfs_open_dir mnt,
                     Call_stat devpath, Call_ioctl_fs_info (fresh_fd (handles s))])"
    using m o st a
    by (simp add: btrfs_find_devid_and_mnt_def get_btrfs_mount_def btrfs_open_dir_def stat_def
        ioctl_fs_info_def fault_def tick_def log_call_def Let_def fresh_fd_not_neg)
qed

text \<open>
  Where every entry that answers has a path, the code decides each candidate as the
  claim words it.
\<close>

lemma candidate_claimed:
  assumes "fst (dev_info_q E mnt (of_nat i)) \<noteq> 0 \<or> di_path (snd (dev_info_q E mnt (of_nat i))) \<noteq> []"
  shows "candidate E mnt rdev i = claimed_candidate E mnt rdev i"
  using assms by (auto simp: candidate_def claimed_candidate_def split: prod.splits)

lemma below_2_cases: "j < (2::nat) \<Longrightarrow> j = 0 \<or> j = 1"
  by arith

lemma le_3_cases: "j \<le> (3::nat) \<Longrightarrow> j = 0 \<or> j = 1 \<or> j = 2 \<or> j = 3"
  by arith

text \<open>
  Runs of the scan: \<^verbatim>\<open>/dev/sdc\<close> is device 1 of the filesystem at \<^verbatim>\<open>/mnt\<close>; a query
  failing with \<open>EIO\<close> aborts the scan; with device 2 detached, \<^verbatim>\<open>/dev/sdd\<close> is not found;
  a refused query of the filesystem returns \<open>-EPERM\<close>.
\<close>

lemma resolver_scan_examples:
  "map_option fst (btrfs_find_devid_and_mnt E0 ''/dev/sdc'' s0) = Some (0, Some 1, ''/mnt'')
   \<and> map_option (dev_ids \<circ> trace \<circ> snd) (btrfs_find_devid_and_mnt E0 ''/dev/sdc'' s0)
       = Some [0, 1]
   \<and> map_option fst (btrfs_find_devid_and_mnt E_abort ''/dev/sdb'' s0) = Some (- 5, None, ''/mnt'')
   \<and> map_option fst (btrfs_find_devid_and_mnt E_detached ''/dev/sdd'' s0) = Some (- 12, None, ''/mnt'')
   \<and> map_option fst (btrfs_find_devid_and_mnt E_eperm ''/dev/sdb'' s0) = Some (- 1, None, ''/mnt'')"
proof -
  have c: "candidate E0 ''/mnt'' (8, 32) 0 = Skip" "candidate E0 ''/mnt'' (8, 32) 1 = Match 1"
    by (simp_all add: candidate_def E0_def)
  have d: "candidate E_detached ''/mnt'' (8, 48) 0 = Skip"
    "candidate E_detached ''/mnt'' (8, 48) 1 = No_match"
    "candidate E_detached ''/mnt'' (8, 48) 2 = Skip"
    "candidate E_detached ''/mnt'' (8, 48) 3 = No_match"
    by (simp_all add: candidate_def E_detached_def E0_def)
  have a: "candidate E_abort ''/mnt'' (8, 16) 0 = Skip" "candidate E_abort ''/mnt'' (8, 16) 1 = Abort (- 5)"
    by (simp_all add: candidate_def E_abort_def E0_def)
  have pc: "\<forall>j<1. passed (candidate E0 ''/mnt'' (8, 32) j)"
    using c by (simp add: passed_def)
  have pd: "\<forall>j\<le>unat (3::u64). passed (candidate E_detached ''/mnt'' (8, 48) j)"
    using d le_3_cases by (auto simp: passed_def)
  have pa: "\<forall>j<1. passed (candidate E_abort ''/mnt'' (8, 16) j)"
    using a by (simp add: passed_def)
  have e0: "mount_q E0 ''/dev/sdc'' = (0, ''/mnt'')"
    "fault_q E0 (clock s0) = None" "stat_q E0 ''/dev/sdc'' = Some (8, 32)"
    "fs_info_q E0 ''/mnt'' = Inr 3"
    by (simp_all add: E0_def)
  have ed: "mount_q E_detached ''/dev/sdd'' = (0, ''/mnt'')" "fault_q E_detached (clock s0) = None"
    "stat_q E_detached ''/dev/sdd'' = Some (8, 48)" "fs_info_q E_detached ''/mnt'' = Inr 3"
    by (simp_all add: E_detached_def E0_def)
  have ea: "mount_q E_abort ''/dev/sdb'' = (0, ''/mnt'')" "fault_q E_abort (clock s0) = None"
    "stat_q E_abort ''/dev/sdb'' = Some (8, 16)" "fs_info_q E_abort ''/mnt'' = Inr 3"
    by (simp_all add: E_abort_def E0_def)
  have ep: "mount_q E_eperm ''/dev/sdb'' = (0, ''/mnt'')" "fault_q E_eperm (clock s0) = None"
    "stat_q E_eperm ''/dev/sdb'' = Some (8, 16)" "fs_info_q E_eperm ''/mnt'' = Inl EPERM"
    by (simp_all add: E_eperm_def E0_def)
  have t0: "trace s0 = []" by (simp add: s0_def)
  have 1: "map_option fst (btrfs_find_devid_and_mnt E0 ''/dev/sdc'' s0) = Some (0, Some 1, ''/mnt'')
     \<and> map_option (dev_ids \<circ> trace \<circ> snd) (btrfs_find_devid_and_mnt E0 ''/dev/sdc'' s0)
       = Some [0, 1]"
    using resolver_scan [OF e0(1) e0(2) e0(3), where max_id = 3 and k = 1 and d = 1]
      pc c(2) e0(4) t0
    by (simp add: INT_MAX_def upt_rec)
  have 2: "map_option fst (btrfs_find_devid_and_mnt E_abort ''/dev/sdb'' s0) = Some (- 5, None, ''/mnt'')"
    using resolver_scan [OF ea(1) ea(2) ea(3), where max_id = 3 and k = 1 and r = "- 5"]
      pa a(2) ea(4)
    by (simp add: INT_MAX_def)
  have 3: "map_option fst (btrfs_find_devid_and_mnt E_detached ''/dev/sdd'' s0) = Some (- 12, None, ''/mnt'')"
    using resolver_scan [OF ed(1) ed(2) ed(3), where max_id = 3]
      pd ed(4)
    by (simp add: INT_MAX_def)
  have 4: "map_option fst (btrfs_find_devid_and_mnt E_eperm ''/dev/sdb'' s0) = Some (- 1, None, ''/mnt'')"
    using resolver_scan [OF ep(1) ep(2) ep(3)] ep(4)
    by simp
  from 1 2 3 4 show ?thesis by blast
qed

lemma resolver_E0_sdc:
  "\<exists>s1. btrfs_find_devid_and_mnt E0 ''/dev/sdc'' s0 = Some ((0, Some 1, ''/mnt''), s1)"
proof (rule resolver_found [where rdev = "(8, 32)" and max_id = 3 and k = 1])
  show "mount_q E0 ''/dev/sdc'' = (0, ''/mnt'')" by (simp add: E0_def)
  show "fault_q E0 (clock s0) = None" by (simp add: E0_def)
  show "stat_q E0 ''/dev/sdc'' = Some (8, 32)" by (simp add: E0_def)
  show "fs_info_q E0 ''/mnt'' = Inr 3" by (simp add: E0_def)
  show "1 \<le> unat (3::u64)" by simp
  show "1 \<le> INT_MAX" by (simp add: INT_MAX_def)
  show "\<forall>j<1. passed (candidate E0 ''/mnt'' (8, 32) j)"
    by (simp add: candidate_def E0_def passed_def)
  show "candidate E0 ''/mnt'' (8, 32) 1 = Match 1" by (simp add: candidate_def E0_def)
qed

lemma first_decisive_passed:
  "\<forall>v \<in> set vs. passed v \<Longrightarrow> first_decisive (vs @ ws) = first_decisive ws"
  by (induction vs) (auto simp: passed_def)

lemma first_decisive_stops:
  "\<not> passed v \<Longrightarrow> first_decisive (v # ws) = first_decisive [v]"
  by (cases v) (simp_all add: passed_def)

lemma first_decisive_upt:
  assumes "k < n" and "\<forall>j<k. passed (f j)" and "\<not> passed (f k)"
  shows "first_decisive (map f [0..<n]) = first_decisive [f k]"
proof -
  have "[0..<n] = [0..<k] @ k # [Suc k..<n]"
    using assms(1) by (metis upt_conv_Cons upt_add_eq_append le0 le_add_diff_inverse less_imp_le_nat plus_nat.add_0)
  then have "map f [0..<n] = map f [0..<k] @ f k # map f [Suc k..<n]" by simp
  moreover have "\<forall>v \<in> set (map f [0..<k]). passed v" using assms(2) by simp
  ultimately show ?thesis
    using first_decisive_passed first_decisive_stops [OF assms(3)] by metis
qed

lemma first_decisive_none:
  assumes "\<forall>j<n. passed (f j)"
  shows "first_decisive (map f [0..<n]) = (- 12, None)"
proof -
  have "\<forall>v \<in> set (map f [0..<n]). passed v" using assms by simp
  then show ?thesis using first_decisive_passed [of "map f [0..<n]" "[]"] by simp
qed

text \<open>
  The result of the code is that of the first candidate, in ascending order, that is
  neither skipped nor examined without a match, and -12 when there is none.
\<close>

lemma resolver_first_decisive:
  assumes m: "mount_q E devpath = (0, mnt)" and o: "fault_q E (clock s) = None"
    and st: "stat_q E devpath = Some rdev"
    and fi: "fs_info_q E mnt = Inr max_id" and lim: "unat max_id < INT_MAX"
  shows "map_option fst (btrfs_find_devid_and_mnt E devpath s) =
     Some (case first_decisive (map (candidate E mnt rdev) [0..<Suc (unat max_id)]) of
             (r, d) \<Rightarrow> (r, d, mnt))"
proof (cases "\<forall>j<Suc (unat max_id). passed (candidate E mnt rdev j)")
  case True
  then have "\<forall>j\<le>unat max_id. passed (candidate E mnt rdev j)" by (simp add: less_Suc_eq_le)
  then have "map_option fst (btrfs_find_devid_and_mnt E devpath s) = Some (- 12, None, mnt)"
    using resolver_scan [OF m o st, of max_id] fi lim by blast
  then show ?thesis unfolding first_decisive_none [OF True] by simp
next
  case False
  then obtain k0 where "k0 < Suc (unat max_id) \<and> \<not> passed (candidate E mnt rdev k0)" by blast
  then obtain k where k: "k < Suc (unat max_id)" "\<not> passed (candidate E mnt rdev k)"
    "\<forall>j<k. \<not> (j < Suc (unat max_id) \<and> \<not> passed (candidate E mnt rdev j))"
    using exists_least_iff [of "\<lambda>j. j < Suc (unat max_id) \<and> \<not> passed (candidate E mnt rdev j)"]
    by blast
  have p: "\<forall>j<k. passed (candidate E mnt rdev j)"
    using k(1,3) by auto
  have kl: "k \<le> unat max_id" "k \<le> INT_MAX" using k(1) lim by simp_all
  have fd: "first_decisive (map (candidate E mnt rdev) [0..<Suc (unat max_id)])
      = first_decisive [candidate E mnt rdev k]"
    by (rule first_decisive_upt [OF k(1) p k(2)])
  show ?thesis
  proof (cases "candidate E mnt rdev k")
    case Skip
    then show ?thesis using k(2) by (simp add: passed_def)
  next
    case No_match
    then show ?thesis using k(2) by (simp add: passed_def)
  next
    case (Abort r)
    have "map_option fst (btrfs_find_devid_and_mnt E devpath s) = Some (r, None, mnt)"
      using resolver_scan [OF m o st, of max_id k _ r] fi kl p Abort by blast
    then show ?thesis unfolding fd Abort by simp
  next
    case (Match d)
    have "map_option fst (btrfs_find_devid_and_mnt E devpath s) = Some (0, Some d, mnt)"
      using resolver_scan [OF m o st, of max_id k d] fi kl p Match by blast
    then show ?thesis unfolding fd Match by simp
  qed
qed

text \<open>
  So, on a filesystem where every entry that answers has a path, the resolver returns
  what the claim says.
\<close>

lemma resolver_as_claimed:
  assumes m: "mount_q E devpath = (0, mnt)" and o: "fault_q E (clock s) = None"
    and st: "stat_q E devpath = Some rdev"
    and fi: "fs_info_q E mnt = Inr max_id" and lim: "unat max_id < INT_MAX"
    and np: "\<forall>i\<le>unat max_id. fst (dev_info_q E mnt (of_nat i)) \<noteq> 0
                \<or> di_path (snd (dev_info_q E mnt (of_nat i))) \<noteq> []"
  shows "map_option fst (btrfs_find_devid_and_mnt E devpath s) =
     Some (case claimed_result E mnt rdev (unat max_id) of (r, d) \<Rightarrow> (r, d, mnt))"
proof -
  have "candidate E mnt rdev i = claimed_candidate E mnt rdev i"
    if "i \<in> set [0..<Suc (unat max_id)]" for i
  proof (rule candidate_claimed)
    have "i \<le> unat max_id" using that by auto
    then show "fst (dev_info_q E mnt (of_nat i)) \<noteq> 0
                \<or> di_path (snd (dev_info_q E mnt (of_nat i))) \<noteq> []"
      using np by blast
  qed
  then have eq: "map (candidate E mnt rdev) [0..<Suc (unat max_id)]
      = map (claimed_candidate E mnt rdev) [0..<Suc (unat max_id)]"
    by (rule map_cong [OF refl])
  show ?thesis
    unfolding resolver_first_decisive [OF m o st fi lim] claimed_result_def eq ..
qed

text \<open>
  C1. The claim has the scan skip the entries lacking a path, and the loop of props.c
  has a \<^verbatim>\<open>continue\<close> for them, commented \<^verbatim>\<open>missing devices\<close> (lines 214-216); but its test
  never holds (\<open>path_is_null\<close>), so that the entry of a missing device is examined with
  \<^verbatim>\<open>stat\<close> on the empty path, which fails and ends the scan.

  On the filesystem at \<^verbatim>\<open>/mnt\<close> with the devices 1 (\<^verbatim>\<open>/dev/sdc\<close>), 2 (missing: the query
  succeeds and the path is empty) and 3 (\<^verbatim>\<open>/dev/sdb\<close>), highest id 3, the claim skips the
  ids 0 and 2 and resolves \<^verbatim>\<open>/dev/sdb\<close> to device 3. The code returns -1 for \<^verbatim>\<open>/dev/sdb\<close>,
  with no device id, after querying the ids 0, 1 and 2 only, and reports
  \<^verbatim>\<open>cannot stat '/dev/sdb'\<close>; a get of the allocation hint of \<^verbatim>\<open>/dev/sdb\<close> then returns -5.
\<close>

theorem btrfs_find_devid_and_mnt_missing_device:
  "dev_info_q E0 ''/mnt'' 2 = (0, \<lparr>di_devid = 2, di_path = []\<rparr>)
   \<and> map (claimed_candidate E0 ''/mnt'' (8, 16)) [0, 1, 2, 3] = [Skip, No_match, Skip, Match 3]
   \<and> claimed_result E0 ''/mnt'' (8, 16) 3 = (0, Some 3)
   \<and> map_option fst (btrfs_find_devid_and_mnt E0 ''/dev/sdb'' s0) = Some (- 1, None, ''/mnt'')
   \<and> map_option (dev_ids \<circ> trace \<circ> snd) (btrfs_find_devid_and_mnt E0 ''/dev/sdb'' s0)
       = Some [0, 1, 2]
   \<and> map_option (errs \<circ> snd) (btrfs_find_devid_and_mnt E0 ''/dev/sdb'' s0)
       = Some [Msg (''cannot stat '' @ quoted ''%s'') [''/dev/sdb''] None]
   \<and> map_option fst
       (prop_allocation_hint K0 E0 prop_object_dev ''/dev/sdb'' ''allocation_hint'' None s0)
     = Some (- 5)"
proof -
  have 1: "dev_info_q E0 ''/mnt'' 2 = (0, \<lparr>di_devid = 2, di_path = []\<rparr>)"
    by (simp add: E0_def)
  have 2: "map (claimed_candidate E0 ''/mnt'' (8, 16)) [0, 1, 2, 3] = [Skip, No_match, Skip, Match 3]"
    by (simp add: claimed_candidate_def E0_def)
  have u: "[0..<Suc 3] = [0, 1, 2, 3]"
    by (simp add: upt_rec)
  have 3: "claimed_result E0 ''/mnt'' (8, 16) 3 = (0, Some 3)"
    unfolding claimed_result_def u 2 by simp
  have c: "candidate E0 ''/mnt'' (8, 16) 0 = Skip" "candidate E0 ''/mnt'' (8, 16) 1 = No_match"
    "candidate E0 ''/mnt'' (8, 16) 2 = Abort (- 1)"
    by (simp_all add: candidate_def E0_def)
  have pc: "\<forall>j<2. passed (candidate E0 ''/mnt'' (8, 16) j)"
    using c below_2_cases by (auto simp: passed_def)
  have e0: "mount_q E0 ''/dev/sdb'' = (0, ''/mnt'')" "fault_q E0 (clock s0) = None"
    "stat_q E0 ''/dev/sdb'' = Some (8, 16)" "fs_info_q E0 ''/mnt'' = Inr 3"
    by (simp_all add: E0_def)
  have t0: "trace s0 = []" by (simp add: s0_def)
  have 4: "map_option fst (btrfs_find_devid_and_mnt E0 ''/dev/sdb'' s0) = Some (- 1, None, ''/mnt'')
     \<and> map_option (dev_ids \<circ> trace \<circ> snd) (btrfs_find_devid_and_mnt E0 ''/dev/sdb'' s0)
       = Some [0, 1, 2]"
    using resolver_scan [OF e0(1) e0(2) e0(3), where max_id = 3 and k = 2 and r = "- 1"]
      pc c(3) e0(4) t0
    by (simp add: INT_MAX_def upt_rec)
  have 5: "map_option (errs \<circ> snd) (btrfs_find_devid_and_mnt E0 ''/dev/sdb'' s0)
       = Some [Msg (''cannot stat '' @ quoted ''%s'') [''/dev/sdb''] None]"
    by (simp add: btrfs_find_devid_and_mnt_def get_btrfs_mount_def btrfs_open_dir_def stat_def
        ioctl_fs_info_def get_device_info_def scan_loop.simps scan_body_def path_is_null_def
        close_file_or_dir_def error_msg_def fault_def tick_def log_call_def Let_def
        fresh_fd_def E0_def s0_def INT_MAX_def)
  obtain s1 where "btrfs_find_devid_and_mnt E0 ''/dev/sdb'' s0 = Some ((- 1, None, ''/mnt''), s1)"
    using 4 by auto
  then have 6: "map_option fst
       (prop_allocation_hint K0 E0 prop_object_dev ''/dev/sdb'' ''allocation_hint'' None s0)
     = Some (- 5)"
    by (simp add: prop_allocation_hint_def)
  from 1 2 3 4 5 6 show ?thesis by simp
qed

subsection \<open>The allocation hint\<close>

lemma hint_after_read:
  assumes R: "btrfs_find_devid_and_mnt E object s = Some ((0, Some devid, mnt), s1)"
    and "fault_q E (clock s1) = None" and "fault_q E (Suc (clock s1)) = None"
    and "dev_types s1 (mnt, scast devid) = Some t"
  shows "prop_allocation_hint K E ty object name val s =
     (case val of
        None \<Rightarrow>
          Some (allocation_hint_get K devid object ((read_request devid)\<lparr>props_type := t\<rparr>)
                  (fresh_fd (handles s1))
                  (s1\<lparr>handles := (fresh_fd (handles s1), mnt) # handles s1,
                      trace := trace s1 @ [Call_btrfs_open_dir mnt,
                        Call_ioctl_dev_properties (fresh_fd (handles s1)) (read_request devid)],
                      clock := Suc (Suc (clock s1))\<rparr>))
      | Some str \<Rightarrow>
          Some (allocation_hint_set K E devid mnt str ((read_request devid)\<lparr>props_type := t\<rparr>)
                  (fresh_fd (handles s1))
                  (s1\<lparr>handles := (fresh_fd (handles s1), mnt) # handles s1,
                      trace := trace s1 @ [Call_btrfs_open_dir mnt,
                        Call_ioctl_dev_properties (fresh_fd (handles s1)) (read_request devid)],
                      clock := Suc (Suc (clock s1))\<rparr>)))"
  using assms
  by (simp add: prop_allocation_hint_def btrfs_open_dir_def ioctl_dev_properties_def fault_def
      tick_def log_call_def Let_def fresh_fd_not_neg read_request_def split: option.splits)

lemma find_value_class_name:
  "pair_descr (find_value v (allocation_hint_description K)) = class_name K v"
  by (simp add: allocation_hint_description_def class_name_def)

lemma find_descr_class_names:
  "pair_descr (find_descr str (allocation_hint_description K)) \<noteq> None \<longleftrightarrow> str \<in> set class_names"
  by (simp add: allocation_hint_description_def class_names_def)

lemma allocation_hint_get_result:
  "allocation_hint_get K devid object props fd s =
     (0, close_file_or_dir fd
           (printf (hint_line devid object
              (case class_name K (props_type props AND BTRFS_DEV_ALLOCATION_MASK K) of
                 Some n \<Rightarrow> n
               | None \<Rightarrow> ''unknown:'' @ dec_nat (unat (props_type props AND BTRFS_DEV_ALLOCATION_MASK K))))
            s))"
  by (simp add: allocation_hint_get_def Let_def find_value_class_name split: option.splits)

text \<open>
  C9, as the code has it. For a device that resolves (to \<open>devid\<close> on the filesystem
  mounted at \<open>mnt\<close>), whose mount directory opens and whose properties can be read,
  with \<open>t\<close> its stored type: a get returns 0 and prints one line,
  \<^verbatim>\<open>devid=<id>, path=<object>: allocation_hint=<text>\<close>, where the text is the name of the
  first class of the table whose value equals \<open>t AND mask\<close>, and \<^verbatim>\<open>unknown:<number>\<close>,
  with that value in decimal, when no class has it.
\<close>

theorem allocation_hint_get_output:
  assumes R: "btrfs_find_devid_and_mnt E object s = Some ((0, Some devid, mnt), s1)"
    and O: "fault_q E (Suc (clock s)) = None" and Rd: "fault_q E (Suc (Suc (clock s))) = None"
    and T: "dev_types s (mnt, scast devid) = Some t"
  shows "map_option fst (prop_allocation_hint K E ty object name None s) = Some 0
     \<and> map_option (out \<circ> snd) (prop_allocation_hint K E ty object name None s)
         = Some (out s @ [hint_line devid object
              (case class_name K (t AND BTRFS_DEV_ALLOCATION_MASK K) of
                 Some n \<Rightarrow> n
               | None \<Rightarrow> ''unknown:'' @ dec_nat (unat (t AND BTRFS_DEV_ALLOCATION_MASK K)))])"
proof -
  have f: "same_stores s s1" "clock s1 = Suc (clock s)"
    using resolver_frame [OF R] by simp_all
  have T1: "dev_types s1 (mnt, scast devid) = Some t" and o1: "out s1 = out s"
    using f(1) T by (simp_all add: same_stores_def)
  show ?thesis
    using hint_after_read [OF R, of t K ty name None] O Rd T1 f(2) o1
    by (simp add: allocation_hint_get_result close_file_or_dir_def log_call_def printf_def
        cong: option.case_cong)
qed

theorem allocation_hint_get_output_witness:
  "map_option fst (prop_allocation_hint K0 E0 prop_object_dev ''/dev/sdc'' ''allocation_hint'' None s0)
     = Some 0
   \<and> map_option (out \<circ> snd)
       (prop_allocation_hint K0 E0 prop_object_dev ''/dev/sdc'' ''allocation_hint'' None s0)
     = Some [''devid=1, path=/dev/sdc: allocation_hint=unknown:5'' @ nl]"
proof -
  obtain s1 where R: "btrfs_find_devid_and_mnt E0 ''/dev/sdc'' s0 = Some ((0, Some 1, ''/mnt''), s1)"
    using resolver_E0_sdc by blast
  have f: "fault_q E0 n = None" for n by (simp add: E0_def)
  have T: "dev_types s0 (''/mnt'', scast (1::c_int)) = Some 0x15" by (simp add: s0_def)
  have o: "out s0 = []" by (simp add: s0_def)
  have c: "class_name K0 (0x15 AND BTRFS_DEV_ALLOCATION_MASK K0) = None"
    "unat ((0x15::u64) AND BTRFS_DEV_ALLOCATION_MASK K0) = 5"
    by (simp_all add: class_name_def K0_def)
  have h: "hint_line 1 ''/dev/sdc'' (''unknown:'' @ dec_nat 5)
       = ''devid=1, path=/dev/sdc: allocation_hint=unknown:5'' @ nl"
    by (simp add: hint_line_def dec_int_def)
  show ?thesis
    using allocation_hint_get_output [OF R f f T, where K = K0 and ty = prop_object_dev
        and name = "''allocation_hint''"] o c h
    by simp
qed

text \<open>
  C9 as stated fails. On the device \<^verbatim>\<open>/dev/sdc\<close> (device 1, stored type 0x15, mask 7, so
  the sub-mask 5 names no class) the line printed is
  \<^verbatim>\<open>devid=1, path=/dev/sdc: allocation_hint=unknown:5\<close>; the claim's form for this value
  is \<^verbatim>\<open>allocation_hint=5\<close>, which does not occur anywhere in that line.
\<close>

theorem allocation_hint_get_output_counterexample:
  "map_option (out \<circ> snd)
       (prop_allocation_hint K0 E0 prop_object_dev ''/dev/sdc'' ''allocation_hint'' None s0)
     = Some [''devid=1, path=/dev/sdc: allocation_hint=unknown:5'' @ nl]
   \<and> claimed_hint_output K0 (0x15 AND BTRFS_DEV_ALLOCATION_MASK K0) = ''allocation_hint=5''
   \<and> \<not> sublist (claimed_hint_output K0 (0x15 AND BTRFS_DEV_ALLOCATION_MASK K0))
         (''devid=1, path=/dev/sdc: allocation_hint=unknown:5'' @ nl)"
proof -
  obtain s1 where R: "btrfs_find_devid_and_mnt E0 ''/dev/sdc'' s0 = Some ((0, Some 1, ''/mnt''), s1)"
    using resolver_E0_sdc by blast
  have f: "same_stores s0 s1" "clock s1 = Suc (clock s0)"
    using resolver_frame [OF R] by simp_all
  have T1: "dev_types s1 (''/mnt'', scast (1::c_int)) = Some 0x15" and o1: "out s1 = []"
    using f(1) by (simp_all add: same_stores_def s0_def)
  have fq: "fault_q E0 n = None" for n by (simp add: E0_def)
  have c: "class_name K0 (0x15 AND BTRFS_DEV_ALLOCATION_MASK K0) = None"
    "unat ((0x15::u64) AND BTRFS_DEV_ALLOCATION_MASK K0) = 5"
    by (simp_all add: class_name_def K0_def)
  have h: "hint_line 1 ''/dev/sdc'' (''unknown:'' @ dec_nat 5)
       = ''devid=1, path=/dev/sdc: allocation_hint=unknown:5'' @ nl"
    by (simp add: hint_line_def dec_int_def)
  have 1: "map_option (out \<circ> snd)
       (prop_allocation_hint K0 E0 prop_object_dev ''/dev/sdc'' ''allocation_hint'' None s0)
     = Some [''devid=1, path=/dev/sdc: allocation_hint=unknown:5'' @ nl]"
    using hint_after_read [OF R fq fq T1, of K0 prop_object_dev "''allocation_hint''" None] c h o1
    by (simp add: allocation_hint_get_result close_file_or_dir_def log_call_def printf_def)
  have 2: "claimed_hint_output K0 (0x15 AND BTRFS_DEV_ALLOCATION_MASK K0) = ''allocation_hint=5''"
    using c by (simp add: claimed_hint_output_def)
  have 3: "\<not> sublist ''allocation_hint=5'' (''devid=1, path=/dev/sdc: allocation_hint=unknown:5'' @ nl)"
    by (simp add: nl_def sublist_Cons_right)
  from 1 2 3 show ?thesis by simp
qed

lemma mask_merge_outside:
  "((t AND NOT m) OR (v AND m)) AND NOT m = t AND NOT (m::u64)"
  by (rule bit_eqI) (auto simp: bit_simps)

lemma mask_merge_inside:
  "((t AND NOT m) OR (v AND m)) AND m = v AND (m::u64)"
  by (rule bit_eqI) (auto simp: bit_simps)

lemma parse_hint_None_iff:
  "parse_hint K str = None \<longleftrightarrow>
     str \<notin> set class_names
     \<and> (sscanf_llu str = None
        \<or> (\<exists>v. sscanf_llu str = Some v \<and> v AND NOT (BTRFS_DEV_ALLOCATION_MASK K) \<noteq> 0))"
  using find_descr_class_names [of str K]
  by (auto simp: parse_hint_def Let_def split: option.splits)

lemma allocation_hint_set_accepted:
  assumes "parse_hint K str = Some v" and "fault_q E (clock s) = None"
    and "map_of (handles s) fd = Some mnt" and "dev_types s (mnt, scast devid) = Some t0"
  shows "allocation_hint_set K E devid path str props fd s =
     (0, close_file_or_dir fd
          (s\<lparr>trace := trace s @ [Call_ioctl_dev_properties fd
                 (props\<lparr>props_type := (props_type props AND NOT (BTRFS_DEV_ALLOCATION_MASK K))
                                 OR (v AND BTRFS_DEV_ALLOCATION_MASK K),
                    props_properties := {BTRFS_DEV_PROPERTY_TYPE},
                    props_devid := scast devid\<rparr>)],
              clock := Suc (clock s),
              dev_types := (dev_types s)((mnt, scast devid) \<mapsto>
                 (props_type props AND NOT (BTRFS_DEV_ALLOCATION_MASK K))
                   OR (v AND BTRFS_DEV_ALLOCATION_MASK K))\<rparr>))"
  using assms
  by (simp add: allocation_hint_set_def ioctl_dev_properties_def fault_def tick_def log_call_def
      Let_def)

lemma allocation_hint_set_rejected:
  assumes "parse_hint K str = None"
  shows "allocation_hint_set K E devid path str props fd s =
     (- 3, close_file_or_dir fd (error_msg invalid_value_msg [str] None s))"
  using assms by (simp add: allocation_hint_set_def)

lemma prop_allocation_hint_accepted_run:
  assumes R: "btrfs_find_devid_and_mnt E object s = Some ((0, Some devid, mnt), s1)"
    and O: "fault_q E (Suc (clock s)) = None" and Rd: "fault_q E (Suc (Suc (clock s))) = None"
    and T: "dev_types s (mnt, scast devid) = Some t"
    and A: "parse_hint K str = Some v"
    and W: "fault_q E (Suc (Suc (Suc (clock s)))) = None"
  shows "prop_allocation_hint K E ty object name (Some str) s =
     Some (0, s1\<lparr>trace := trace s1 @
                 [Call_btrfs_open_dir mnt,
                  Call_ioctl_dev_properties (fresh_fd (handles s)) (read_request devid),
                  Call_ioctl_dev_properties (fresh_fd (handles s))
                    \<lparr>props_devid = scast devid, props_properties = {BTRFS_DEV_PROPERTY_TYPE},
                     props_type = (t AND NOT (BTRFS_DEV_ALLOCATION_MASK K))
                                    OR (v AND BTRFS_DEV_ALLOCATION_MASK K)\<rparr>,
                  Call_close_file_or_dir (fresh_fd (handles s))],
               clock := Suc (Suc (Suc (Suc (clock s)))),
               dev_types := (dev_types s)((mnt, scast devid) \<mapsto>
                  (t AND NOT (BTRFS_DEV_ALLOCATION_MASK K)) OR (v AND BTRFS_DEV_ALLOCATION_MASK K)),
               handles := handles s\<rparr>)"
proof -
  have f: "same_stores s s1" "clock s1 = Suc (clock s)" "handles s1 = handles s"
    using resolver_frame [OF R] errno_num_pos [of EPERM] by auto
  have T1: "dev_types s1 (mnt, scast devid) = Some t"
    using f(1) T by (simp add: same_stores_def)
  have st: "dev_types s1 = dev_types s"
    using f(1) by (simp add: same_stores_def)
  let ?s3 = "s1\<lparr>handles := (fresh_fd (handles s1), mnt) # handles s1,
                 trace := trace s1 @ [Call_btrfs_open_dir mnt,
                   Call_ioctl_dev_properties (fresh_fd (handles s1)) (read_request devid)],
                 clock := Suc (Suc (clock s1))\<rparr>"
  have run: "prop_allocation_hint K E ty object name (Some str) s =
      Some (allocation_hint_set K E devid mnt str ((read_request devid)\<lparr>props_type := t\<rparr>)
              (fresh_fd (handles s1)) ?s3)"
    using hint_after_read [OF R, of t K ty name "Some str"] O Rd T1 f(2) by simp
  have set: "allocation_hint_set K E devid mnt str ((read_request devid)\<lparr>props_type := t\<rparr>)
              (fresh_fd (handles s1)) ?s3 =
     (0, close_file_or_dir (fresh_fd (handles s1))
          (?s3\<lparr>trace := trace ?s3 @ [Call_ioctl_dev_properties (fresh_fd (handles s1))
                 (((read_request devid)\<lparr>props_type := t\<rparr>)
                   \<lparr>props_type := (props_type ((read_request devid)\<lparr>props_type := t\<rparr>)
                                  AND NOT (BTRFS_DEV_ALLOCATION_MASK K))
                                 OR (v AND BTRFS_DEV_ALLOCATION_MASK K),
                    props_properties := {BTRFS_DEV_PROPERTY_TYPE},
                    props_devid := scast devid\<rparr>)],
              clock := Suc (clock ?s3),
              dev_types := (dev_types ?s3)((mnt, scast devid) \<mapsto>
                 (props_type ((read_request devid)\<lparr>props_type := t\<rparr>)
                    AND NOT (BTRFS_DEV_ALLOCATION_MASK K))
                   OR (v AND BTRFS_DEV_ALLOCATION_MASK K))\<rparr>))"
  proof (rule allocation_hint_set_accepted [OF A])
    show "fault_q E (clock ?s3) = None" using W f(2) by simp
    show "map_of (handles ?s3) (fresh_fd (handles s1)) = Some mnt" by simp
    show "dev_types ?s3 (mnt, scast devid) = Some t" using T1 by simp
  qed
  show ?thesis
    unfolding run set
    by (simp add: close_file_or_dir_def log_call_def st f(2) f(3) read_request_def close_fresh_fd)
qed

text \<open>
  C2. For a device that resolves, whose mount directory opens and whose properties
  can be read, with \<open>t\<close> its stored type, a set with an accepted value \<open>v\<close> whose write
  succeeds returns 0 and stores \<open>(t AND NOT mask) OR (v AND mask)\<close> as the type of
  that device: outside the mask the stored type keeps every bit of \<open>t\<close>, inside the
  mask it has the bits of \<open>v\<close>. The second exchange is a write request that selects
  the type alone and carries that value and the device id; it is the only write.
  The types of the other devices, and every other store, are unchanged.
\<close>

theorem allocation_hint_set_merges:
  assumes R: "btrfs_find_devid_and_mnt E object s = Some ((0, Some devid, mnt), s1)"
    and O: "fault_q E (Suc (clock s)) = None" and Rd: "fault_q E (Suc (Suc (clock s))) = None"
    and T: "dev_types s (mnt, scast devid) = Some t"
    and A: "parse_hint K str = Some v"
    and W: "fault_q E (Suc (Suc (Suc (clock s)))) = None"
  shows "map_option fst (prop_allocation_hint K E ty object name (Some str) s) = Some 0
     \<and> map_option (dev_types \<circ> snd) (prop_allocation_hint K E ty object name (Some str) s)
         = Some ((dev_types s)((mnt, scast devid) \<mapsto>
              (t AND NOT (BTRFS_DEV_ALLOCATION_MASK K)) OR (v AND BTRFS_DEV_ALLOCATION_MASK K)))
     \<and> ((t AND NOT (BTRFS_DEV_ALLOCATION_MASK K)) OR (v AND BTRFS_DEV_ALLOCATION_MASK K))
           AND NOT (BTRFS_DEV_ALLOCATION_MASK K) = t AND NOT (BTRFS_DEV_ALLOCATION_MASK K)
     \<and> ((t AND NOT (BTRFS_DEV_ALLOCATION_MASK K)) OR (v AND BTRFS_DEV_ALLOCATION_MASK K))
           AND BTRFS_DEV_ALLOCATION_MASK K = v AND BTRFS_DEV_ALLOCATION_MASK K
     \<and> map_option (trace \<circ> snd) (prop_allocation_hint K E ty object name (Some str) s)
         = Some (trace s1 @
             [Call_btrfs_open_dir mnt,
              Call_ioctl_dev_properties (fresh_fd (handles s)) (read_request devid),
              Call_ioctl_dev_properties (fresh_fd (handles s))
                \<lparr>props_devid = scast devid, props_properties = {BTRFS_DEV_PROPERTY_TYPE},
                 props_type = (t AND NOT (BTRFS_DEV_ALLOCATION_MASK K))
                                OR (v AND BTRFS_DEV_ALLOCATION_MASK K)\<rparr>,
              Call_close_file_or_dir (fresh_fd (handles s))])
     \<and> map_option (xattrs \<circ> snd) (prop_allocation_hint K E ty object name (Some str) s)
         = Some (xattrs s)
     \<and> map_option (subvol_ro \<circ> snd) (prop_allocation_hint K E ty object name (Some str) s)
         = Some (subvol_ro s)
     \<and> map_option (labels \<circ> snd) (prop_allocation_hint K E ty object name (Some str) s)
         = Some (labels s)"
proof -
  have st: "xattrs s1 = xattrs s" "subvol_ro s1 = subvol_ro s" "labels s1 = labels s"
    using resolver_frame [OF R] by (simp_all add: same_stores_def)
  show ?thesis
    unfolding prop_allocation_hint_accepted_run [OF R O Rd T A W]
    by (simp add: st mask_merge_outside mask_merge_inside)
qed

lemma map_option_at:
  "map_option (f \<circ> snd) X = Some m \<Longrightarrow> map_option (\<lambda>r. f (snd r) k) X = Some (m k)"
  by (cases X) auto

theorem allocation_hint_set_merges_witness:
  "map_option fst
     (prop_allocation_hint K0 E0 prop_object_dev ''/dev/sdc'' ''allocation_hint''
        (Some ''METADATA_ONLY'') s0) = Some 0
   \<and> map_option (\<lambda>r. dev_types (snd r) (''/mnt'', 1))
     (prop_allocation_hint K0 E0 prop_object_dev ''/dev/sdc'' ''allocation_hint''
        (Some ''METADATA_ONLY'') s0) = Some (Some 0x12)
   \<and> map_option (\<lambda>r. dev_types (snd r) (''/mnt'', 3))
     (prop_allocation_hint K0 E0 prop_object_dev ''/dev/sdc'' ''allocation_hint''
        (Some ''METADATA_ONLY'') s0) = Some (Some 0x25)"
proof -
  obtain s1 where R: "btrfs_find_devid_and_mnt E0 ''/dev/sdc'' s0 = Some ((0, Some 1, ''/mnt''), s1)"
    using resolver_E0_sdc by blast
  have f: "fault_q E0 n = None" for n by (simp add: E0_def)
  have T: "dev_types s0 (''/mnt'', scast (1::c_int)) = Some 0x15" by (simp add: s0_def)
  have A: "parse_hint K0 ''METADATA_ONLY'' = Some 2"
    by (simp add: parse_hint_def allocation_hint_description_def K0_def)
  note W = allocation_hint_set_merges [OF R f f T A f, where ty = prop_object_dev
      and name = "''allocation_hint''"]
  have v: "((0x15::u64) AND NOT (BTRFS_DEV_ALLOCATION_MASK K0)) OR (2 AND BTRFS_DEV_ALLOCATION_MASK K0)
      = 0x12"
    by (simp add: K0_def)
  have 1: "map_option fst
     (prop_allocation_hint K0 E0 prop_object_dev ''/dev/sdc'' ''allocation_hint''
        (Some ''METADATA_ONLY'') s0) = Some 0"
    using W by simp
  have 2: "map_option (\<lambda>r. dev_types (snd r) (''/mnt'', 1))
     (prop_allocation_hint K0 E0 prop_object_dev ''/dev/sdc'' ''allocation_hint''
        (Some ''METADATA_ONLY'') s0) = Some (Some 0x12)"
    using map_option_at [OF W [THEN conjunct2, THEN conjunct1], of "(''/mnt'', 1)"] v
    by simp
  have 3: "map_option (\<lambda>r. dev_types (snd r) (''/mnt'', 3))
     (prop_allocation_hint K0 E0 prop_object_dev ''/dev/sdc'' ''allocation_hint''
        (Some ''METADATA_ONLY'') s0) = Some (Some 0x25)"
    using map_option_at [OF W [THEN conjunct2, THEN conjunct1], of "(''/mnt'', 3)"]
    by (simp add: s0_def)
  from 1 2 3 show ?thesis by simp
qed

lemma prop_allocation_hint_rejected_frame:
  assumes P: "parse_hint K str = None"
    and X: "prop_allocation_hint K E ty object name (Some str) s = Some (r, s')"
  shows "same_stores s s'"
proof -
  obtain ret dw path s1 where R: "btrfs_find_devid_and_mnt E object s = Some ((ret, dw, path), s1)"
    using X by (auto simp: prop_allocation_hint_def split: option.splits prod.splits)
  have f: "same_stores s s1" using resolver_frame [OF R] by simp
  have "same_stores s1 s'"
    using X R P
    by (auto simp: prop_allocation_hint_def btrfs_open_dir_def ioctl_dev_properties_def
        allocation_hint_set_rejected fault_def tick_def log_call_def error_msg_def
        close_file_or_dir_def read_request_def same_stores_def Let_def
        split: option.splits if_splits)
  with f show ?thesis by (rule same_stores_trans)
qed

lemma sscanf_llu_examples:
  "sscanf_llu ''8'' = Some 8" "sscanf_llu ''fast'' = None" "sscanf_llu ''3'' = Some 3"
  by (simp_all add: sscanf_llu_def isspace_def isdigit_def dec_value_def digit_val_def Let_def)

text \<open>
  C3. Let the value of a set be none of the four class names, and either not
  convertible by \<^verbatim>\<open>sscanf\<close>, or converted to a number with a bit outside the allocation
  mask. Then, whatever the outcome, no device's stored type is changed; and when the
  device resolves, its mount directory opens and its properties can be read, the
  handler returns -3 (InvalidValue) after the calls open, read-exchange, close, with
  no write exchange, and reports \<^verbatim>\<open>Invalid value\<close>.
\<close>

theorem allocation_hint_set_invalid:
  assumes I: "str \<notin> set class_names"
    and J: "sscanf_llu str = None
          \<or> sscanf_llu str = Some v \<and> v AND NOT (BTRFS_DEV_ALLOCATION_MASK K) \<noteq> 0"
  shows "(\<forall>r s'. prop_allocation_hint K E ty object name (Some str) s = Some (r, s') \<longrightarrow>
            dev_types s' = dev_types s)
     \<and> (btrfs_find_devid_and_mnt E object s = Some ((0, Some devid, mnt), sr)
          \<and> fault_q E (Suc (clock s)) = None \<and> fault_q E (Suc (Suc (clock s))) = None
          \<and> dev_types s (mnt, scast devid) = Some t \<longrightarrow>
        map_option fst (prop_allocation_hint K E ty object name (Some str) s) = Some (- 3)
        \<and> map_option (trace \<circ> snd) (prop_allocation_hint K E ty object name (Some str) s)
            = Some (trace sr @
                [Call_btrfs_open_dir mnt,
                 Call_ioctl_dev_properties (fresh_fd (handles s)) (read_request devid),
                 Call_close_file_or_dir (fresh_fd (handles s))])
        \<and> map_option (errs \<circ> snd) (prop_allocation_hint K E ty object name (Some str) s)
            = Some (errs sr @ [Msg invalid_value_msg [str] None]))"
proof (intro conjI allI impI)
  have P: "parse_hint K str = None"
    using I J by (auto simp: parse_hint_None_iff)
  show "dev_types s' = dev_types s"
    if "prop_allocation_hint K E ty object name (Some str) s = Some (r, s')" for r s'
    using prop_allocation_hint_rejected_frame [OF P that] by (simp add: same_stores_def)
  assume a: "btrfs_find_devid_and_mnt E object s = Some ((0, Some devid, mnt), sr)
          \<and> fault_q E (Suc (clock s)) = None \<and> fault_q E (Suc (Suc (clock s))) = None
          \<and> dev_types s (mnt, scast devid) = Some t"
  then have R: "btrfs_find_devid_and_mnt E object s = Some ((0, Some devid, mnt), sr)" by simp
  have f: "same_stores s sr" "clock sr = Suc (clock s)" "handles sr = handles s"
    using resolver_frame [OF R] errno_num_pos [of EPERM] by auto
  have T1: "dev_types sr (mnt, scast devid) = Some t"
    using f(1) a by (simp add: same_stores_def)
  have run: "prop_allocation_hint K E ty object name (Some str) s =
      Some (- 3, close_file_or_dir (fresh_fd (handles sr))
         (error_msg invalid_value_msg [str] None
            (sr\<lparr>handles := (fresh_fd (handles sr), mnt) # handles sr,
                 trace := trace sr @ [Call_btrfs_open_dir mnt,
                   Call_ioctl_dev_properties (fresh_fd (handles sr)) (read_request devid)],
                 clock := Suc (Suc (clock sr))\<rparr>)))"
    using hint_after_read [OF R, of t K ty name "Some str"] a T1 f(2)
    by (simp add: allocation_hint_set_rejected [OF P])
  show "map_option fst (prop_allocation_hint K E ty object name (Some str) s) = Some (- 3)"
    unfolding run by simp
  show "map_option (trace \<circ> snd) (prop_allocation_hint K E ty object name (Some str) s)
            = Some (trace sr @
                [Call_btrfs_open_dir mnt,
                 Call_ioctl_dev_properties (fresh_fd (handles s)) (read_request devid),
                 Call_close_file_or_dir (fresh_fd (handles s))])"
    unfolding run by (simp add: close_file_or_dir_def log_call_def error_msg_def f(3))
  show "map_option (errs \<circ> snd) (prop_allocation_hint K E ty object name (Some str) s)
            = Some (errs sr @ [Msg invalid_value_msg [str] None])"
    unfolding run by (simp add: close_file_or_dir_def log_call_def error_msg_def)
qed

theorem allocation_hint_set_invalid_witness:
  "map_option fst
     (prop_allocation_hint K0 E0 prop_object_dev ''/dev/sdc'' ''allocation_hint'' (Some ''8'') s0)
     = Some (- 3)
   \<and> map_option (dev_types \<circ> snd)
     (prop_allocation_hint K0 E0 prop_object_dev ''/dev/sdc'' ''allocation_hint'' (Some ''8'') s0)
     = Some (dev_types s0)
   \<and> map_option fst
     (prop_allocation_hint K0 E0 prop_object_dev ''/dev/sdc'' ''allocation_hint'' (Some ''fast'') s0)
     = Some (- 3)"
proof -
  obtain s1 where R: "btrfs_find_devid_and_mnt E0 ''/dev/sdc'' s0 = Some ((0, Some 1, ''/mnt''), s1)"
    using resolver_E0_sdc by blast
  have f: "fault_q E0 n = None" for n by (simp add: E0_def)
  have T: "dev_types s0 (''/mnt'', scast (1::c_int)) = Some 0x15" by (simp add: s0_def)
  have n: "''8'' \<notin> set class_names" "''fast'' \<notin> set class_names"
    by (simp_all add: class_names_def)
  have j8: "sscanf_llu ''8'' = None
      \<or> sscanf_llu ''8'' = Some 8 \<and> 8 AND NOT (BTRFS_DEV_ALLOCATION_MASK K0) \<noteq> 0"
    by (simp add: sscanf_llu_examples K0_def)
  have jf: "sscanf_llu ''fast'' = None
      \<or> sscanf_llu ''fast'' = Some 0 \<and> 0 AND NOT (BTRFS_DEV_ALLOCATION_MASK K0) \<noteq> 0"
    by (simp add: sscanf_llu_examples)
  note W8 = allocation_hint_set_invalid [OF n(1) j8, where E = E0 and ty = prop_object_dev
      and object = "''/dev/sdc''" and name = "''allocation_hint''" and s = s0 and sr = s1
      and devid = 1 and mnt = "''/mnt''" and t = "0x15"]
  note Wf = allocation_hint_set_invalid [OF n(2) jf, where E = E0 and ty = prop_object_dev
      and object = "''/dev/sdc''" and name = "''allocation_hint''" and s = s0 and sr = s1
      and devid = 1 and mnt = "''/mnt''" and t = "0x15"]
  have 1: "map_option fst
     (prop_allocation_hint K0 E0 prop_object_dev ''/dev/sdc'' ''allocation_hint'' (Some ''8'') s0)
     = Some (- 3)"
    using W8 R f T by simp
  have 3: "map_option fst
     (prop_allocation_hint K0 E0 prop_object_dev ''/dev/sdc'' ''allocation_hint'' (Some ''fast'') s0)
     = Some (- 3)"
    using Wf R f T by simp
  have 2: "map_option (dev_types \<circ> snd)
     (prop_allocation_hint K0 E0 prop_object_dev ''/dev/sdc'' ''allocation_hint'' (Some ''8'') s0)
     = Some (dev_types s0)"
    using W8 [THEN conjunct1] 1
    by (cases "prop_allocation_hint K0 E0 prop_object_dev ''/dev/sdc'' ''allocation_hint'' (Some ''8'') s0")
      auto
  from 1 2 3 show ?thesis by simp
qed

lemma isdigit_not_space_sign:
  "isdigit c \<Longrightarrow> \<not> isspace c \<and> c \<noteq> CHR ''-'' \<and> c \<noteq> CHR ''+''"
  by (auto simp: isdigit_def isspace_def)

lemma isdigit_not_class_initial:
  "isdigit c \<Longrightarrow> c \<noteq> CHR ''P'' \<and> c \<noteq> CHR ''M'' \<and> c \<noteq> CHR ''D''"
  by (auto simp: isdigit_def)

lemma sscanf_llu_digits:
  assumes "ds \<noteq> []" and "\<forall>c \<in> set ds. isdigit c" and "rest = [] \<or> \<not> isdigit (hd rest)"
  shows "sscanf_llu (ds @ rest) =
     (if dec_value ds \<ge> 2 ^ 64 then Some (- 1) else Some (of_nat (dec_value ds)))"
proof -
  obtain d ds' where ds: "ds = d # ds'" using assms(1) by (cases ds) auto
  have d: "isdigit d" using assms(2) ds by simp
  have tw: "takeWhile isdigit (ds @ rest) = ds"
  proof -
    have "takeWhile isdigit rest = []"
      using assms(3) by (cases rest) auto
    then show ?thesis using assms(2) by (simp add: takeWhile_append2)
  qed
  show ?thesis
    using isdigit_not_space_sign [OF d] tw assms(1)
    by (simp add: sscanf_llu_def Let_def ds)
qed

lemma digits_not_class_name:
  assumes "ds \<noteq> []" and "\<forall>c \<in> set ds. isdigit c"
  shows "ds @ rest \<notin> set class_names"
proof -
  obtain d ds' where ds: "ds = d # ds'" using assms(1) by (cases ds) auto
  have "isdigit d" using assms(2) ds by simp
  then show ?thesis
    using isdigit_not_class_initial [of d] by (auto simp: class_names_def ds)
qed

lemma parse_hint_digits:
  assumes "ds \<noteq> []" and "\<forall>c \<in> set ds. isdigit c" and "rest = [] \<or> \<not> isdigit (hd rest)"
  shows "parse_hint K (ds @ rest) = parse_hint K ds"
proof -
  have 1: "sscanf_llu (ds @ rest) = sscanf_llu ds"
    using sscanf_llu_digits [OF assms] sscanf_llu_digits [OF assms(1,2), of "[]"] by simp
  have 2: "pair_descr (find_descr (ds @ rest) (allocation_hint_description K)) = None"
    "pair_descr (find_descr ds (allocation_hint_description K)) = None"
    using find_descr_class_names [of "ds @ rest" K] find_descr_class_names [of ds K]
      digits_not_class_name [OF assms(1,2), of rest] digits_not_class_name [OF assms(1,2), of "[]"]
    by simp_all
  show ?thesis by (simp add: parse_hint_def Let_def 1 2)
qed

lemma allocation_hint_set_same_value:
  assumes "parse_hint K a = parse_hint K b" and "parse_hint K b \<noteq> None"
  shows "allocation_hint_set K E devid path a props fd s
       = allocation_hint_set K E devid path b props fd s"
  using assms by (auto simp: allocation_hint_set_def split: option.splits)

lemma prop_allocation_hint_same_value:
  assumes "parse_hint K a = parse_hint K b" and "parse_hint K b \<noteq> None"
  shows "prop_allocation_hint K E ty object name (Some a) s
       = prop_allocation_hint K E ty object name (Some b) s"
  by (simp add: prop_allocation_hint_def allocation_hint_set_same_value [OF assms]
      cong: option.case_cong prod.case_cong if_cong)

text \<open>
  The conversion of \<^verbatim>\<open>sscanf\<close> undoes the decimal output: the digits of \<open>n\<close>, also after
  zeros, have the value \<open>n\<close>.
\<close>

lemma digit_at:
  assumes "k < 10"
  shows "isdigit (''0123456789'' ! k) \<and> digit_val (''0123456789'' ! k) = k"
proof -
  have "k = 0 \<or> k = 1 \<or> k = 2 \<or> k = 3 \<or> k = 4 \<or> k = 5 \<or> k = 6 \<or> k = 7 \<or> k = 8 \<or> k = 9"
    using assms by arith
  then show ?thesis
    by (elim disjE) (simp_all add: isdigit_def digit_val_def)
qed

lemma dec_nat_digits: "dec_nat n \<noteq> [] \<and> (\<forall>c \<in> set (dec_nat n). isdigit c)"
proof (induction n rule: dec_nat.induct)
  case (1 n)
  show ?case
  proof (cases "n < 10")
    case True
    then have "dec_nat n = [''0123456789'' ! n]" by simp
    then show ?thesis using digit_at [OF True] by (simp del: dec_nat.simps)
  next
    case False
    then have e: "dec_nat n = dec_nat (n div 10) @ [''0123456789'' ! (n mod 10)]"
      by (subst dec_nat.simps) (simp del: dec_nat.simps)
    have "isdigit (''0123456789'' ! (n mod 10))" using digit_at [of "n mod 10"] by simp
    then show ?thesis using 1 [OF False] unfolding e by (auto simp del: dec_nat.simps)
  qed
qed

lemma dec_value_snoc: "dec_value (xs @ [c]) = 10 * dec_value xs + digit_val c"
  by (simp add: dec_value_def)

lemma dec_value_dec_nat: "dec_value (dec_nat n) = n"
proof (induction n rule: dec_nat.induct)
  case (1 n)
  show ?case
  proof (cases "n < 10")
    case True
    then have "dec_nat n = [''0123456789'' ! n]" by simp
    then show ?thesis using digit_at [OF True] by (simp add: dec_value_def del: dec_nat.simps)
  next
    case False
    then have e: "dec_nat n = dec_nat (n div 10) @ [''0123456789'' ! (n mod 10)]"
      by (subst dec_nat.simps) (simp del: dec_nat.simps)
    have m: "digit_val (''0123456789'' ! (n mod 10)) = n mod 10"
      using digit_at [of "n mod 10"] by simp
    show ?thesis
      unfolding e dec_value_snoc m using 1 [OF False] by (simp del: dec_nat.simps)
  qed
qed

lemma dec_value_zeros: "dec_value (replicate z (CHR ''0'') @ xs) = dec_value xs"
proof -
  have "foldl (\<lambda>acc c. 10 * acc + digit_val c) 0 (replicate z (CHR ''0'')) = 0"
    by (induction z) (simp_all add: digit_val_def)
  then show ?thesis by (simp add: dec_value_def)
qed

lemma sscanf_llu_numeral:
  assumes "n < 2 ^ 64" and "rest = [] \<or> \<not> isdigit (hd rest)"
  shows "sscanf_llu (replicate z (CHR ''0'') @ dec_nat n @ rest) = Some (of_nat n)"
proof -
  let ?ds = "replicate z (CHR ''0'') @ dec_nat n"
  have 1: "?ds \<noteq> []" using dec_nat_digits [of n] by (simp del: dec_nat.simps)
  have z: "isdigit (CHR ''0'')" by (simp add: isdigit_def)
  have 2: "\<forall>c \<in> set ?ds. isdigit c"
    using dec_nat_digits [of n] z by (auto simp del: dec_nat.simps)
  have v: "dec_value ?ds = n"
    by (simp add: dec_value_zeros dec_value_dec_nat del: dec_nat.simps)
  have "sscanf_llu (?ds @ rest) = Some (of_nat n)"
    unfolding sscanf_llu_digits [OF 1 2 assms(2)] v using assms(1) by simp
  then show ?thesis by (simp del: dec_nat.simps)
qed


lemma parse_hint_numeral:
  assumes "n < 2 ^ 64" and "rest = [] \<or> \<not> isdigit (hd rest)"
    and "(of_nat n :: u64) AND NOT (BTRFS_DEV_ALLOCATION_MASK K) = 0"
  shows "parse_hint K (replicate z (CHR ''0'') @ dec_nat n @ rest) = Some (of_nat n)"
proof -
  let ?ds = "replicate z (CHR ''0'') @ dec_nat n"
  have 1: "?ds \<noteq> []" using dec_nat_digits [of n] by (simp del: dec_nat.simps)
  have z: "isdigit (CHR ''0'')" by (simp add: isdigit_def)
  have 2: "\<forall>c \<in> set ?ds. isdigit c"
    using dec_nat_digits [of n] z by (auto simp del: dec_nat.simps)
  have "?ds @ rest \<notin> set class_names"
    by (rule digits_not_class_name [OF 1 2])
  then have d: "pair_descr (find_descr (?ds @ rest) (allocation_hint_description K)) = None"
    using find_descr_class_names [of "?ds @ rest" K] by blast
  have s: "sscanf_llu (?ds @ rest) = Some (of_nat n)"
    using sscanf_llu_numeral [OF assms(1,2), of z] by (simp del: dec_nat.simps)
  have "parse_hint K (?ds @ rest) = Some (of_nat n)"
    unfolding parse_hint_def Let_def d s using assms(3) by simp
  then show ?thesis by (simp del: dec_nat.simps)
qed

lemma allocation_hint_set_write_failed:
  assumes "parse_hint K str = Some v" and "fault_q E (clock s) = Some e"
  shows "fst (allocation_hint_set K E devid path str props fd s) = - 4"
  using assms
  by (simp add: allocation_hint_set_def ioctl_dev_properties_def fault_def Let_def)

lemma prop_allocation_hint_status:
  assumes R: "btrfs_find_devid_and_mnt E object s = Some ((0, Some devid, mnt), s1)"
    and O: "fault_q E (Suc (clock s)) = None" and Rd: "fault_q E (Suc (Suc (clock s))) = None"
    and T: "dev_types s (mnt, scast devid) = Some t"
    and A: "parse_hint K str = Some v"
  shows "map_option fst (prop_allocation_hint K E ty object name (Some str) s)
       = Some (if fault_q E (Suc (Suc (Suc (clock s)))) = None then 0 else - 4)"
proof (cases "fault_q E (Suc (Suc (Suc (clock s))))")
  case None
  then show ?thesis
    by (simp add: prop_allocation_hint_accepted_run [OF R O Rd T A None])
next
  case (Some e)
  have f: "same_stores s s1" "clock s1 = Suc (clock s)"
    using resolver_frame [OF R] by simp_all
  have T1: "dev_types s1 (mnt, scast devid) = Some t"
    using f(1) T by (simp add: same_stores_def)
  let ?s3 = "s1\<lparr>handles := (fresh_fd (handles s1), mnt) # handles s1,
                 trace := trace s1 @ [Call_btrfs_open_dir mnt,
                   Call_ioctl_dev_properties (fresh_fd (handles s1)) (read_request devid)],
                 clock := Suc (Suc (clock s1))\<rparr>"
  have run: "prop_allocation_hint K E ty object name (Some str) s =
      Some (allocation_hint_set K E devid mnt str ((read_request devid)\<lparr>props_type := t\<rparr>)
              (fresh_fd (handles s1)) ?s3)"
    using hint_after_read [OF R, of t K ty name "Some str"] O Rd T1 f(2) by simp
  have c: "fault_q E (clock ?s3) = Some e" using Some f(2) by simp
  show ?thesis
    unfolding run using allocation_hint_set_write_failed [OF A c] Some by simp
qed

text \<open>
  C10. Take the decimal text of a number \<open>n\<close> below \<open>2^64\<close> (\<open>dec_nat n\<close>, what \<^verbatim>\<open>%llu\<close>
  prints), any number of zeros before it, and after it any text \<open>rest\<close> that does not
  begin with a digit. \<^verbatim>\<open>sscanf\<close> converts the whole to \<open>n\<close>: what follows the digits is
  not looked at. When \<open>n\<close> has no bit outside the allocation mask, the set takes the
  value for \<open>n\<close>: the run is the run with the value \<open>dec_nat n\<close>, and for a device that
  resolves, whose mount directory opens and whose properties can be read, the handler
  returns 0, or -4 when the write fails, and not -3 (InvalidValue); a write that
  succeeds stores \<open>n\<close> merged into the type of the device.
\<close>

theorem allocation_hint_set_numeric_prefix:
  assumes N: "n < 2 ^ 64" and Rs: "rest = [] \<or> \<not> isdigit (hd rest)"
  shows "sscanf_llu (replicate z (CHR ''0'') @ dec_nat n @ rest) = Some (of_nat n)
     \<and> ((of_nat n :: u64) AND NOT (BTRFS_DEV_ALLOCATION_MASK K) = 0 \<longrightarrow>
          parse_hint K (replicate z (CHR ''0'') @ dec_nat n @ rest) = Some (of_nat n)
          \<and> prop_allocation_hint K E ty object name
                (Some (replicate z (CHR ''0'') @ dec_nat n @ rest)) s
              = prop_allocation_hint K E ty object name (Some (dec_nat n)) s)
     \<and> ((of_nat n :: u64) AND NOT (BTRFS_DEV_ALLOCATION_MASK K) = 0
          \<and> btrfs_find_devid_and_mnt E object s = Some ((0, Some devid, mnt), sr)
          \<and> fault_q E (Suc (clock s)) = None \<and> fault_q E (Suc (Suc (clock s))) = None
          \<and> dev_types s (mnt, scast devid) = Some t \<longrightarrow>
        map_option fst (prop_allocation_hint K E ty object name
              (Some (replicate z (CHR ''0'') @ dec_nat n @ rest)) s)
          = Some (if fault_q E (Suc (Suc (Suc (clock s)))) = None then 0 else - 4)
        \<and> (fault_q E (Suc (Suc (Suc (clock s)))) = None \<longrightarrow>
             map_option (dev_types \<circ> snd) (prop_allocation_hint K E ty object name
                 (Some (replicate z (CHR ''0'') @ dec_nat n @ rest)) s)
               = Some ((dev_types s)((mnt, scast devid) \<mapsto>
                    (t AND NOT (BTRFS_DEV_ALLOCATION_MASK K))
                      OR (of_nat n AND BTRFS_DEV_ALLOCATION_MASK K)))))"
proof (intro conjI impI)
  let ?str = "replicate z (CHR ''0'') @ dec_nat n @ rest"
  show "sscanf_llu ?str = Some (of_nat n)"
    by (rule sscanf_llu_numeral [OF N Rs])
  {
    assume M: "(of_nat n :: u64) AND NOT (BTRFS_DEV_ALLOCATION_MASK K) = 0"
    show P: "parse_hint K ?str = Some (of_nat n)"
      by (rule parse_hint_numeral [OF N Rs M])
    have "parse_hint K (replicate 0 (CHR ''0'') @ dec_nat n @ []) = Some (of_nat n)"
      by (rule parse_hint_numeral [OF N _ M]) simp
    then have P0: "parse_hint K (dec_nat n) = Some (of_nat n)"
      by (simp del: dec_nat.simps)
    show "prop_allocation_hint K E ty object name (Some ?str) s
              = prop_allocation_hint K E ty object name (Some (dec_nat n)) s"
      by (rule prop_allocation_hint_same_value) (simp_all only: P P0 option.distinct not_False_eq_True)
  }
  assume a: "(of_nat n :: u64) AND NOT (BTRFS_DEV_ALLOCATION_MASK K) = 0
          \<and> btrfs_find_devid_and_mnt E object s = Some ((0, Some devid, mnt), sr)
          \<and> fault_q E (Suc (clock s)) = None \<and> fault_q E (Suc (Suc (clock s))) = None
          \<and> dev_types s (mnt, scast devid) = Some t"
  then have M: "(of_nat n :: u64) AND NOT (BTRFS_DEV_ALLOCATION_MASK K) = 0"
    and R: "btrfs_find_devid_and_mnt E object s = Some ((0, Some devid, mnt), sr)"
    and O: "fault_q E (Suc (clock s)) = None" and Rd: "fault_q E (Suc (Suc (clock s))) = None"
    and T: "dev_types s (mnt, scast devid) = Some t"
    by simp_all
  have P: "parse_hint K ?str = Some (of_nat n)"
    by (rule parse_hint_numeral [OF N Rs M])
  show "map_option fst (prop_allocation_hint K E ty object name (Some ?str) s)
          = Some (if fault_q E (Suc (Suc (Suc (clock s)))) = None then 0 else - 4)"
    by (rule prop_allocation_hint_status [OF R O Rd T P])
  show "map_option (dev_types \<circ> snd) (prop_allocation_hint K E ty object name (Some ?str) s)
               = Some ((dev_types s)((mnt, scast devid) \<mapsto>
                    (t AND NOT (BTRFS_DEV_ALLOCATION_MASK K))
                      OR (of_nat n AND BTRFS_DEV_ALLOCATION_MASK K)))"
    if W: "fault_q E (Suc (Suc (Suc (clock s)))) = None"
    unfolding prop_allocation_hint_accepted_run [OF R O Rd T P W] by simp
qed

theorem allocation_hint_set_numeric_prefix_witness:
  "sscanf_llu ''3x'' = Some 3
   \<and> sscanf_llu ''007 and more'' = Some 7
   \<and> map_option fst
       (prop_allocation_hint K0 E0 prop_object_dev ''/dev/sdc'' ''allocation_hint'' (Some ''3x'') s0)
     = Some 0
   \<and> map_option (\<lambda>r. dev_types (snd r) (''/mnt'', 1))
       (prop_allocation_hint K0 E0 prop_object_dev ''/dev/sdc'' ''allocation_hint'' (Some ''3x'') s0)
     = Some (Some 0x13)"
proof -
  have n: "(3::nat) < 2 ^ 64" "(7::nat) < 2 ^ 64" by simp_all
  have r: "''x'' = [] \<or> \<not> isdigit (hd ''x'')"
    "'' and more'' = [] \<or> \<not> isdigit (hd '' and more'')"
    by (simp_all add: isdigit_def)
  obtain s1 where R: "btrfs_find_devid_and_mnt E0 ''/dev/sdc'' s0 = Some ((0, Some 1, ''/mnt''), s1)"
    using resolver_E0_sdc by blast
  note W = allocation_hint_set_numeric_prefix [OF n(1) r(1), where z = 0 and K = K0 and E = E0
      and ty = prop_object_dev and object = "''/dev/sdc''" and name = "''allocation_hint''"
      and s = s0 and devid = 1 and mnt = "''/mnt''" and t = "0x15" and sr = s1]
  note W7 = allocation_hint_set_numeric_prefix [OF n(2) r(2), where z = 2 and K = K0]
  have f: "fault_q E0 k = None" for k by (simp add: E0_def)
  have T: "dev_types s0 (''/mnt'', scast (1::c_int)) = Some 0x15" by (simp add: s0_def)
  have M: "(of_nat 3 :: u64) AND NOT (BTRFS_DEV_ALLOCATION_MASK K0) = 0"
    by (simp add: K0_def)
  have v: "((0x15::u64) AND NOT (BTRFS_DEV_ALLOCATION_MASK K0)) OR (3 AND BTRFS_DEV_ALLOCATION_MASK K0)
      = 0x13"
    by (simp add: K0_def)
  have t3: "replicate 0 (CHR ''0'') @ dec_nat 3 @ ''x'' = ''3x''" by simp
  have t7: "replicate 2 (CHR ''0'') @ dec_nat 7 @ '' and more'' = ''007 and more''"
    by (simp add: numeral_2_eq_2)
  have 1: "sscanf_llu ''3x'' = Some 3"
    using W [THEN conjunct1] unfolding t3 by simp
  have 2: "sscanf_llu ''007 and more'' = Some 7"
    using W7 [THEN conjunct1] unfolding t7 by simp
  have 3: "map_option fst
       (prop_allocation_hint K0 E0 prop_object_dev ''/dev/sdc'' ''allocation_hint'' (Some ''3x'') s0)
     = Some 0"
    using W [THEN conjunct2, THEN conjunct2] M R f T unfolding t3 by simp
  have 4: "map_option (dev_types \<circ> snd)
       (prop_allocation_hint K0 E0 prop_object_dev ''/dev/sdc'' ''allocation_hint'' (Some ''3x'') s0)
     = Some ((dev_types s0)((''/mnt'', scast (1::c_int)) \<mapsto>
          ((0x15::u64) AND NOT (BTRFS_DEV_ALLOCATION_MASK K0)) OR (of_nat 3 AND BTRFS_DEV_ALLOCATION_MASK K0)))"
    using W [THEN conjunct2, THEN conjunct2] M R f T unfolding t3 by simp
  have 5: "map_option (\<lambda>r. dev_types (snd r) (''/mnt'', 1))
       (prop_allocation_hint K0 E0 prop_object_dev ''/dev/sdc'' ''allocation_hint'' (Some ''3x'') s0)
     = Some (Some 0x13)"
    using map_option_at [OF 4, of "(''/mnt'', 1)"] v by simp
  from 1 2 3 5 show ?thesis by simp
qed

subsection \<open>Handles and buffers at return\<close>

text \<open>
  The handlers of the read-only flag and of the label open and allocate nothing
  themselves. The allocation-hint handler closes the directory it opened on every
  path, so at its return the open handles are those the resolver left, and the heap
  is as before.
\<close>

lemma allocation_hint_get_handles:
  "handles (snd (allocation_hint_get K devid object props fd s)) = filter (\<lambda>h. fst h \<noteq> fd) (handles s)
   \<and> heap (snd (allocation_hint_get K devid object props fd s)) = heap s"
  by (simp add: allocation_hint_get_def Let_def close_file_or_dir_def log_call_def printf_def
      split: option.splits)

lemma ioctl_dev_properties_handles:
  "handles (snd (ioctl_dev_properties E fd props s)) = handles s
   \<and> heap (snd (ioctl_dev_properties E fd props s)) = heap s"
  by (simp add: ioctl_dev_properties_def Let_def tick_def log_call_def split: option.splits)

lemma allocation_hint_set_handles:
  "handles (snd (allocation_hint_set K E devid path str props fd s)) = filter (\<lambda>h. fst h \<noteq> fd) (handles s)
   \<and> heap (snd (allocation_hint_set K E devid path str props fd s)) = heap s"
proof (cases "parse_hint K str")
  case None
  then show ?thesis
    by (simp add: allocation_hint_set_def close_file_or_dir_def log_call_def error_msg_def)
next
  case (Some v)
  obtain r p s1 where i: "ioctl_dev_properties E fd
      (props\<lparr>props_type := (props_type props AND NOT (BTRFS_DEV_ALLOCATION_MASK K))
                  OR (v AND BTRFS_DEV_ALLOCATION_MASK K),
             props_properties := {BTRFS_DEV_PROPERTY_TYPE},
             props_devid := scast devid\<rparr>) s = ((r, p), s1)"
    by (metis prod.exhaust)
  have "handles s1 = handles s \<and> heap s1 = heap s"
    using ioctl_dev_properties_handles [of E fd _ s] i by (metis snd_conv)
  then show ?thesis
    using Some i
    by (simp add: allocation_hint_set_def close_file_or_dir_def log_call_def error_msg_def)
qed

lemma prop_allocation_hint_releases:
  assumes R: "btrfs_find_devid_and_mnt E object s = Some (x, s1)"
    and X: "prop_allocation_hint K E ty object name val s = Some (r, s')"
  shows "handles s' = handles s1 \<and> heap s' = heap s"
proof -
  obtain ret dw path where x: "x = (ret, dw, path)" by (cases x)
  have h: "heap s1 = heap s"
    using resolver_frame [OF R [unfolded x]] by (simp add: same_stores_def)
  show ?thesis
  proof (cases "ret \<noteq> 0 \<or> dw = None")
    case True
    then show ?thesis
      using X R x h by (auto simp: prop_allocation_hint_def split: if_splits)
  next
    case False
    then obtain devid where d: "ret = 0" "dw = Some devid" by auto
    show ?thesis
    proof (cases "fault_q E (clock s1)")
      case (Some e)
      then show ?thesis
        using X R x d h errno_num_pos [of e]
        by (auto simp: prop_allocation_hint_def btrfs_open_dir_def fault_def tick_def log_call_def
            Let_def)
    next
      case None
      let ?fd = "fresh_fd (handles s1)"
      let ?s2 = "(tick (log_call (Call_btrfs_open_dir path) s1))\<lparr>handles := (?fd, path) # handles s1\<rparr>"
      have o: "btrfs_open_dir E path s1 = (?fd, ?s2)"
        using None by (simp add: btrfs_open_dir_def fault_def tick_def log_call_def Let_def)
      obtain r3 props s3 where i: "ioctl_dev_properties E ?fd (read_request devid) ?s2 = ((r3, props), s3)"
        by (metis prod.exhaust)
      have s3: "handles s3 = (?fd, path) # handles s1" "heap s3 = heap s1"
        using ioctl_dev_properties_handles [of E ?fd "read_request devid" ?s2] i
        by (simp_all add: tick_def log_call_def)
      have run: "Some (r, s') =
          (if r3 < 0 then
             Some (- 1, close_file_or_dir ?fd (error_msg ioctl_failed_msg [path] None s3))
           else
             (case val of
                None \<Rightarrow> Some (allocation_hint_get K devid object props ?fd s3)
              | Some str \<Rightarrow> Some (allocation_hint_set K E devid path str props ?fd s3)))"
        using X R x d o i by (simp add: prop_allocation_hint_def fresh_fd_not_neg)
      have "handles s' = filter (\<lambda>h. fst h \<noteq> ?fd) (handles s3) \<and> heap s' = heap s3"
      proof (cases "r3 < 0")
        case True
        with run show ?thesis
          by (simp add: close_file_or_dir_def log_call_def error_msg_def)
      next
        case nf: False
        show ?thesis
        proof (cases val)
          case None
          with run nf have "(r, s') = allocation_hint_get K devid object props ?fd s3" by simp
          then show ?thesis
            using allocation_hint_get_handles [of K devid object props ?fd s3] by (metis snd_conv)
        next
          case (Some str)
          with run nf have "(r, s') = allocation_hint_set K E devid path str props ?fd s3" by simp
          then show ?thesis
            using allocation_hint_set_handles [of K E devid path str props ?fd s3] by (metis snd_conv)
        qed
      qed
      then show ?thesis using s3 h by (simp add: close_fresh_fd)
    qed
  qed
qed

lemma prop_read_only_opens_nothing:
  "handles (snd (prop_read_only E ty object name val s)) = handles s
   \<and> heap (snd (prop_read_only E ty object name val s)) = heap s"
  by (simp add: prop_read_only_def btrfs_util_set_subvolume_read_only_def
      btrfs_util_get_subvolume_read_only_def error_btrfs_util_def error_msg_def printf_def
      tick_def log_call_def Let_def split: option.splits sum.splits)

lemma prop_label_opens_nothing:
  "handles (snd (prop_label E ty object name val s)) = handles s
   \<and> heap (snd (prop_label E ty object name val s)) = heap s"
  by (simp add: prop_label_def set_label_def get_label_def printf_def
      tick_def log_call_def Let_def split: option.splits)

text \<open>
  In general: when the filesystem query is refused with \<open>EPERM\<close>, the directory the
  resolver opened is still open when it returns.
\<close>

lemma resolver_eperm_leak:
  assumes "mount_q E devpath = (0, mnt)" and "fault_q E (clock s) = None"
    and "stat_q E devpath = Some rdev" and "fs_info_q E mnt = Inl EPERM"
  shows "map_option (handles \<circ> snd) (btrfs_find_devid_and_mnt E devpath s)
       = Some ((fresh_fd (handles s), mnt) # handles s)"
  using assms
  by (simp add: btrfs_find_devid_and_mnt_def get_btrfs_mount_def btrfs_open_dir_def stat_def
      ioctl_fs_info_def fault_def tick_def log_call_def Let_def fresh_fd_not_neg)

text \<open>
  C8 fails on the resolver. When the filesystem query is refused with \<open>EPERM\<close>, the
  resolver returns at once, without going through the label \<^verbatim>\<open>out:\<close>, and the mount
  directory it opened stays open: no handle is open before, the handle 0 on \<^verbatim>\<open>/mnt\<close> is
  open after, also after the allocation-hint handler that called the resolver has
  returned -5. With another failure of the same query (\<open>EIO\<close>) the handle is closed.
\<close>

theorem resolver_eperm_keeps_handle:
  "handles s0 = []
   \<and> map_option (\<lambda>r. (fst r, handles (snd r))) (btrfs_find_devid_and_mnt E_eperm ''/dev/sdb'' s0)
       = Some ((- 1, None, ''/mnt''), [(0, ''/mnt'')])
   \<and> map_option (\<lambda>r. (fst r, handles (snd r)))
       (prop_allocation_hint K0 E_eperm prop_object_dev ''/dev/sdb'' ''allocation_hint'' None s0)
       = Some (- 5, [(0, ''/mnt'')])
   \<and> map_option (\<lambda>r. (fst r, handles (snd r)))
       (btrfs_find_devid_and_mnt (E0\<lparr>fs_info_q := (\<lambda>p. Inl EIO)\<rparr>) ''/dev/sdb'' s0)
       = Some ((- 10, None, ''/mnt''), [])"
  by (simp add: prop_allocation_hint_def btrfs_find_devid_and_mnt_def get_btrfs_mount_def
      btrfs_open_dir_def stat_def ioctl_fs_info_def close_file_or_dir_def error_msg_def
      fault_def tick_def log_call_def Let_def fresh_fd_def E_eperm_def E0_def s0_def)

end
